theory Spec2Isabelle
  imports Main
begin

section \<open>Go values shared by both update strategies\<close>

subsection \<open>Errors\<close>

text \<open>
  A Go \<^verbatim>\<open>error\<close> is an interface value. The errors that reach this package from its
  collaborators (the admin API, the reconciler library, \<^verbatim>\<open>encoding/json\<close>) are opaque: all the
  package does with them is compare them with \<^verbatim>\<open>nil\<close>, wrap them and print them, so such
  an error is given by the text its \<^verbatim>\<open>Error()\<close> method returns. \<^verbatim>\<open>errors.New\<close> and
  \<^verbatim>\<open>fmt.Errorf\<close> build the other two shapes; an \<^verbatim>\<open>Errorf\<close> value carries its formatted message
  and the errors its \<^verbatim>\<open>%w\<close> verbs wrap, in order. \<^verbatim>\<open>nil\<close> is \<open>None\<close> of \<open>error option\<close>.
\<close>

datatype error =
    Opaque string
  | errors_New string
  | fmt_Errorf string "error list"

fun Error_text :: "error \<Rightarrow> string" where
  "Error_text (Opaque m) = m"
| "Error_text (errors_New m) = m"
| "Error_text (fmt_Errorf m wrapped) = m"

text \<open>
  A run-time panic is not an error value: it unwinds the goroutine and, unrecovered, ends
  the process. Every function that can panic returns an \<open>outcome\<close>.
\<close>

datatype reflect_Kind =
    reflect_Invalid | reflect_Bool | reflect_Int | reflect_Float64 | reflect_String
  | reflect_Slice | reflect_Array | reflect_Map | reflect_Chan | reflect_Func
  | reflect_Interface | reflect_Pointer | reflect_Struct

datatype panic =
    nil_pointer_dereference
  | reflect_ValueError string reflect_Kind

datatype 'a outcome = Returned 'a | Panicked panic

subsection \<open>Values of type \<^verbatim>\<open>any\<close> and the part of package \<^verbatim>\<open>reflect\<close> the classifier uses\<close>

text \<open>
  The entity snapshots of an event have static type \<^verbatim>\<open>any\<close>. What the classifier can
  observe of such a value through \<^verbatim>\<open>reflect\<close> is: whether it is the nil interface, a pointer
  (nil or not) or a plain value; whether the value is a struct; and, for a struct, its
  fields by name. A field of type \<^verbatim>\<open>[]*string\<close> is \<open>StringPtrs\<close>: \<open>None\<close> is the nil slice,
  and an element \<open>None\<close> is a nil pointer. A field of any other type is \<open>OtherField z\<close>, where
  \<open>z\<close> says whether it holds the zero value of its type. \<open>OtherValue k\<close> is a value of kind
  \<open>k\<close> that is not a struct.
\<close>

datatype field_value =
    StringPtrs "string option list option"
  | OtherField bool

datatype go_value =
    StructValue string "(string \<times> field_value) list"
  | OtherValue reflect_Kind

datatype any =
    Nil_any
  | Val go_value
  | Ptr "go_value option"

datatype reflect_Value =
    Zero_Value
  | Value_of go_value
  | Pointer_Value "go_value option"

fun reflect_ValueOf :: "any \<Rightarrow> reflect_Value" where
  "reflect_ValueOf Nil_any = Zero_Value"
| "reflect_ValueOf (Val v) = Value_of v"
| "reflect_ValueOf (Ptr p) = Pointer_Value p"

fun reflect_Indirect :: "reflect_Value \<Rightarrow> reflect_Value" where
  "reflect_Indirect (Pointer_Value None) = Zero_Value"
| "reflect_Indirect (Pointer_Value (Some v)) = Value_of v"
| "reflect_Indirect v = v"

fun Kind_of :: "reflect_Value \<Rightarrow> reflect_Kind" where
  "Kind_of Zero_Value = reflect_Invalid"
| "Kind_of (Value_of (StructValue ty fields)) = reflect_Struct"
| "Kind_of (Value_of (OtherValue k)) = k"
| "Kind_of (Pointer_Value p) = reflect_Pointer"

fun Kind_String :: "reflect_Kind \<Rightarrow> string" where
  "Kind_String reflect_Invalid = ''invalid''"
| "Kind_String reflect_Bool = ''bool''"
| "Kind_String reflect_Int = ''int''"
| "Kind_String reflect_Float64 = ''float64''"
| "Kind_String reflect_String = ''string''"
| "Kind_String reflect_Slice = ''slice''"
| "Kind_String reflect_Array = ''array''"
| "Kind_String reflect_Map = ''map''"
| "Kind_String reflect_Chan = ''chan''"
| "Kind_String reflect_Func = ''func''"
| "Kind_String reflect_Interface = ''interface''"
| "Kind_String reflect_Pointer = ''ptr''"
| "Kind_String reflect_Struct = ''struct''"

text \<open>
  \<^verbatim>\<open>Value.FieldByName\<close> returns the zero \<^verbatim>\<open>Value\<close> when the struct has no field of that
  name; the result \<open>None\<close> is that zero \<^verbatim>\<open>Value\<close>. (On a \<^verbatim>\<open>Value\<close> that is not a struct it
  panics; the classifier checks the kind first, and a value with no fields has none to
  find.)
\<close>

fun FieldByName :: "reflect_Value \<Rightarrow> string \<Rightarrow> field_value option" where
  "FieldByName (Value_of (StructValue ty fields)) n = map_of fields n"
| "FieldByName v n = None"

text \<open>
  \<^verbatim>\<open>Value.IsZero\<close> reports whether a value is the zero value of its type, a nil slice for
  a slice type. It panics on the zero \<^verbatim>\<open>Value\<close> (kind \<^verbatim>\<open>Invalid\<close>), with a
  \<^verbatim>\<open>*reflect.ValueError\<close>.
\<close>

fun IsZero :: "field_value option \<Rightarrow> bool outcome" where
  "IsZero None = Panicked (reflect_ValueError ''reflect.Value.IsZero'' reflect_Invalid)"
| "IsZero (Some (StringPtrs None)) = Returned True"
| "IsZero (Some (StringPtrs (Some tags))) = Returned False"
| "IsZero (Some (OtherField z)) = Returned z"

text \<open>The name \<^verbatim>\<open>%s\<close> prints for \<^verbatim>\<open>reflect.TypeOf(subj)\<close>.\<close>

fun TypeOf_String :: "any \<Rightarrow> string" where
  "TypeOf_String (Val (StructValue ty fields)) = ty"
| "TypeOf_String (Ptr (Some (StructValue ty fields))) = ''*'' @ ty"
| "TypeOf_String (Val (OtherValue k)) = Kind_String k"
| "TypeOf_String (Ptr (Some (OtherValue k))) = ''*'' @ Kind_String k"
| "TypeOf_String (Ptr None) = ''*''"
| "TypeOf_String Nil_any = ''%!s(<nil>)''"


section \<open>The events of the reconciler and the normalised error record\<close>

text \<open>
  \<^verbatim>\<open>diff.EntityAction\<close> and \<^verbatim>\<open>diff.Entity\<close> of the reconciler library, as the comment above
  \<^verbatim>\<open>HandleEvents\<close> quotes them.
\<close>

record Entity =
  Name :: string
  Kind :: string
  Old :: any
  New :: any

record EntityAction =
  Action :: string
  Entity :: Entity
  Diff :: string
  Error :: "error option"

text \<open>
  \<^verbatim>\<open>rawResourceError\<close> with the three fields the classifier sets (it leaves the others at
  their zero value; the source says so of \<^verbatim>\<open>ID\<close>).
\<close>

record rawResourceError =
  raw_Name :: string
  raw_Tags :: "string list"
  raw_Problems :: "string \<rightharpoonup> string"

text \<open>
  Modelled from the spec: the record \<^verbatim>\<open>ResourceError\<close> is declared outside the files under
  \<^verbatim>\<open>src/\<close>. The specification gives it as
  \<^verbatim>\<open>{name: string, kind: string, tags: ordered sequence of string, problems: mapping}\<close>;
  the fields carry the prefix \<open>re_\<close> here.
\<close>

record ResourceError =
  re_name :: string
  re_kind :: string
  re_tags :: "string list"
  re_problems :: "string \<rightharpoonup> string"

text \<open>
  Modelled from the spec: \<^verbatim>\<open>parseRawResourceError\<close> is called by the classifier and defined
  outside the files under \<^verbatim>\<open>src/\<close>. The specification has classification return the
  record with the collected tags and the problems map (section 4.4, steps 5 to 7), so the
  helper copies name, tags and problems of the raw record and never fails. The raw record
  has no kind, so none can be copied: the kind is Go's zero value, the empty string.
  The classifier below takes the helper as an argument, and the lemmas about the classifier
  hold for every helper; this definition is the helper wherever one must be fixed.
\<close>

definition parseRawResourceError :: "rawResourceError \<Rightarrow> error + ResourceError" where
  "parseRawResourceError raw =
     Inr \<lparr>re_name = raw_Name raw, re_kind = '''', re_tags = raw_Tags raw,
          re_problems = raw_Problems raw\<rparr>"

section \<open>Error classification: \<^verbatim>\<open>resourceErrorFromEntityAction\<close>\<close>

text \<open>
  The loop \<^verbatim>\<open>for _, s := range tags { actualTags = append(actualTags, *s) }\<close>. It
  dereferences every element; \<^verbatim>\<open>*s\<close> on a nil pointer panics.
\<close>

fun deref_tags :: "string list \<Rightarrow> string option list \<Rightarrow> string list outcome" where
  "deref_tags actualTags [] = Returned actualTags"
| "deref_tags actualTags (s # tags) =
     (case s of
        None \<Rightarrow> Panicked nil_pointer_dereference
      | Some v \<Rightarrow> deref_tags (actualTags @ [v]) tags)"

text \<open>\<^verbatim>\<open>fmt.Sprintf("%s", event.Error)\<close>.\<close>

fun Sprintf_error :: "error option \<Rightarrow> string" where
  "Sprintf_error None = ''%!s(<nil>)''"
| "Sprintf_error (Some e) = Error_text e"

text \<open>
  The classifier returns \<^verbatim>\<open>(ResourceError, error)\<close>: \<open>Inl\<close> is the error return (with the
  empty \<^verbatim>\<open>ResourceError{}\<close>), \<open>Inr\<close> the record. Its first argument is the helper
  \<^verbatim>\<open>parseRawResourceError\<close>.
\<close>

definition resourceErrorFromEntityAction ::
  "(rawResourceError \<Rightarrow> error + ResourceError) \<Rightarrow> EntityAction \<Rightarrow> (error + ResourceError) outcome"
where
  "resourceErrorFromEntityAction parseRaw event =
    (let subj = (if New (Entity event) \<noteq> Nil_any then New (Entity event) else Old (Entity event));
         reflected = reflect_Indirect (reflect_ValueOf subj)
     in
       if Kind_of reflected \<noteq> reflect_Struct then
         Returned (Inl (fmt_Errorf
           (''entity '' @ Kind (Entity event) @ ''/'' @ Name (Entity event) @ '' is ''
              @ Kind_String (Kind_of reflected) @ '', not Struct'') []))
       else
         (let tagsValue = FieldByName reflected ''Tags'' in
          case IsZero tagsValue of
            Panicked p \<Rightarrow> Panicked p
          | Returned True \<Rightarrow>
              Returned (Inl (fmt_Errorf
                (''entity '' @ Kind (Entity event) @ ''/'' @ Name (Entity event) @ '' of type ''
                   @ TypeOf_String subj @ '' lacks 'Tags' field'') []))
          | Returned False \<Rightarrow>
              (case tagsValue of
                 Some (StringPtrs (Some tags)) \<Rightarrow>
                   (case deref_tags [] tags of
                      Panicked p \<Rightarrow> Panicked p
                    | Returned actualTags \<Rightarrow>
                        Returned (parseRaw
                          \<lparr>raw_Name = Name (Entity event),
                           raw_Tags = actualTags,
                           raw_Problems = ['''' \<mapsto> Sprintf_error (Error event)]\<rparr>))
               | _ \<Rightarrow>
                   Returned (Inl (fmt_Errorf
                     (''entity '' @ Kind (Entity event) @ ''/'' @ Name (Entity event)
                        @ '' Tags field is not []*string'') [])))))"

section \<open>The whole-state strategy: \<^verbatim>\<open>UpdateStrategyInMemory\<close>\<close>

text \<open>
  Values the strategy only hands on are opaque and named by a label: the desired-state
  document (\<^verbatim>\<open>file.Content\<close>) and the proxy's native payload (\<^verbatim>\<open>DBLessConfig\<close>). A byte
  slice is a \<open>string\<close>, and \<open>None\<close> of \<open>string option\<close> is the nil slice.
\<close>

datatype file_Content = file_Content string

datatype DBLessConfig = DBLessConfig string

record ContentWithHash =
  Content :: file_Content
  Content_Hash :: string

text \<open>
  The two interface values the strategy holds are the methods they have:
  \<^verbatim>\<open>ConfigService.ReloadDeclarativeRawConfig(ctx, config, checkHash, flattenErrors)\<close>, which
  returns \<^verbatim>\<open>([]byte, error)\<close>, and \<^verbatim>\<open>ContentToDBLessConfigConverter.Convert\<close>.
\<close>

record UpdateStrategyInMemory =
  configService :: "string \<Rightarrow> bool \<Rightarrow> bool \<Rightarrow> string option \<times> error option"
  configConverter :: "file_Content \<Rightarrow> DBLessConfig"

text \<open>
  \<^verbatim>\<open>Update\<close> returns \<^verbatim>\<open>(err, resourceErrors, rawErrBody)\<close>. \<^verbatim>\<open>json.Marshal\<close> and the helper
  \<^verbatim>\<open>parseFlatEntityErrors\<close> (defined outside the files under \<^verbatim>\<open>src/\<close>) are arguments; each
  returns a value or an error, and \<^verbatim>\<open>Update\<close> reads the value only when the error is nil.
  The element type of the list the helper returns is left open.
\<close>

definition UpdateStrategyInMemory_Update ::
  "(DBLessConfig \<Rightarrow> error + string) \<Rightarrow> (string option \<Rightarrow> error + 'e list option) \<Rightarrow>
   UpdateStrategyInMemory \<Rightarrow> ContentWithHash \<Rightarrow> error option \<times> 'e list option \<times> string option"
where
  "UpdateStrategyInMemory_Update json_Marshal parseFlatEntityErrors s targetState =
    (let dblessConfig = configConverter s (Content targetState) in
     case json_Marshal dblessConfig of
       Inl err \<Rightarrow>
         (Some (fmt_Errorf (''constructing kong configuration: '' @ Error_text err) [err]),
          None, None)
     | Inr config \<Rightarrow>
         (case configService s config True True of
            (errBody, Some reloadErr) \<Rightarrow>
              (case parseFlatEntityErrors errBody of
                 Inl err \<Rightarrow>
                   (Some (fmt_Errorf
                      (''failed to parse config error: '' @ Error_text reloadErr @ '': ''
                         @ Error_text err) [reloadErr, err]),
                    None, errBody)
               | Inr entityErrs \<Rightarrow> (Some reloadErr, entityErrs, errBody))
          | (errBody, None) \<Rightarrow> (None, None, None)))"

definition UpdateStrategyInMemory_Type :: "UpdateStrategyInMemory \<Rightarrow> string" where
  "UpdateStrategyInMemory_Type s = ''InMemory''"

section \<open>The diff-apply strategy: \<^verbatim>\<open>UpdateStrategyDBMode\<close>\<close>

subsection \<open>Data\<close>

datatype KongRawState = KongRawState string

datatype KongState = KongState string

datatype dump_Config = dump_Config string

datatype semver_Version = semver_Version string

datatype Syncer = Syncer string

record kong_Client =
  BaseRootURL :: string

text \<open>
  Modelled from the spec: \<^verbatim>\<open>diagnostics.EntityDiff\<close> and its constructor
  \<^verbatim>\<open>diagnostics.NewEntityDiff(diff, action)\<close> are defined outside the files under \<^verbatim>\<open>src/\<close>.
  The specification gives an entity diff as the pair of the diff text and the action.
\<close>

record EntityDiff =
  diffText :: string
  diffAction :: string

definition NewEntityDiff :: "string \<Rightarrow> string \<Rightarrow> EntityDiff" where
  "NewEntityDiff d a = \<lparr>diffText = d, diffAction = a\<rparr>"

record ConfigDiff =
  Hash :: string
  Entities :: "EntityDiff list"

text \<open>
  \<^verbatim>\<open>*diagnostics.ClientDiagnostic\<close> is a handle on the diagnostics sink; \<open>None\<close> is the nil
  pointer. What is sent on its channel \<^verbatim>\<open>Diffs\<close> is returned by the functions below, as
  the list of the records sent, oldest first.
\<close>

datatype ClientDiagnostic = ClientDiagnostic string

text \<open>
  The strategy. The logger is left out (what is logged is returned), and so is the mutex
  (see \<open>UpdateStrategyDBMode_Update\<close>).
\<close>

record UpdateStrategyDBMode =
  client :: kong_Client
  dumpConfig :: dump_Config
  version :: semver_Version
  concurrency :: int
  diagnostic :: "ClientDiagnostic option"
  isKonnect :: bool
  resourceErrors :: "ResourceError list"

definition NewUpdateStrategyDBMode ::
  "kong_Client \<Rightarrow> dump_Config \<Rightarrow> semver_Version \<Rightarrow> int \<Rightarrow> ClientDiagnostic option \<Rightarrow>
   UpdateStrategyDBMode"
where
  "NewUpdateStrategyDBMode cl dc v n d =
     \<lparr>client = cl, dumpConfig = dc, version = v, concurrency = n, diagnostic = d,
      isKonnect = False, resourceErrors = []\<rparr>"

definition NewUpdateStrategyDBModeKonnect ::
  "kong_Client \<Rightarrow> dump_Config \<Rightarrow> semver_Version \<Rightarrow> int \<Rightarrow> ClientDiagnostic option \<Rightarrow>
   UpdateStrategyDBMode"
where
  "NewUpdateStrategyDBModeKonnect cl dc v n d =
     (let s = NewUpdateStrategyDBMode cl dc v n d in s\<lparr>isKonnect := True\<rparr>)"

definition UpdateStrategyDBMode_Type :: "UpdateStrategyDBMode \<Rightarrow> string" where
  "UpdateStrategyDBMode_Type s = ''DBMode''"

text \<open>
  The errors \<^verbatim>\<open>UpdateStrategyDBMode.Update\<close> returns have four dynamic types: an error of
  the shapes above, \<^verbatim>\<open>deckerrors.ConfigConflictError{Err: err}\<close>, \<^verbatim>\<open>deckutils.ErrArray{Errors: errs}\<close>
  and \<^verbatim>\<open>UpdateError\<close>.

  \<^verbatim>\<open>UpdateError\<close> holds the list of resource failures and the cause it is built from by
  \<^verbatim>\<open>NewUpdateError(resourceFailures, err)\<close>; the type \<open>'f\<close> of a resource failure is left
  open.
\<close>

datatype 'f update_error =
    Plain error
  | ConfigConflictError error
  | ErrArray "error list"
  | UpdateError "'f list" "'f update_error"

definition NewUpdateError :: "'f list \<Rightarrow> 'f update_error \<Rightarrow> 'f update_error" where
  "NewUpdateError resourceFailures err = UpdateError resourceFailures err"

text \<open>
  Modelled from the spec: \<^verbatim>\<open>resourceErrorsToResourceFailures\<close> is defined outside the files
  under \<^verbatim>\<open>src/\<close>. The specification gives \<^verbatim>\<open>UpdateError\<close> as
  \<^verbatim>\<open>{resourceErrors: sequence of ResourceError, cause}\<close> and has the aggregate wrap the
  accumulated per-resource list, so the conversion hands the list on as it is.
  \<open>UpdateStrategyDBMode_Update\<close> below takes the conversion as an argument, and what is
  proved of it holds for every conversion; this definition is the conversion wherever one
  must be fixed.
\<close>

definition resourceErrorsToResourceFailures :: "ResourceError list \<Rightarrow> ResourceError list" where
  "resourceErrorsToResourceFailures resourceErrors_list = resourceErrors_list"

subsection \<open>The collaborators\<close>

text \<open>
  What the admin API and the reconciler library answer during one call of \<^verbatim>\<open>Update\<close>:
  \<^verbatim>\<open>dump.Get\<close>, \<^verbatim>\<open>state.Get\<close>, \<^verbatim>\<open>file.Get\<close>, \<^verbatim>\<open>diff.NewSyncer\<close> and \<^verbatim>\<open>Syncer.Solve\<close>, of which
  \<^verbatim>\<open>Update\<close> keeps the error slice only (\<open>None\<close> is the nil slice). \<open>received\<close> is the sequence of
  events the consumer receives from \<^verbatim>\<open>Syncer.GetResultChan()\<close> before its \<^verbatim>\<open>select\<close> takes
  the branch \<^verbatim>\<open>ctx.Done()\<close>.
\<close>

record RenderConfig =
  render_CurrentState :: KongState
  render_KongVersion :: semver_Version

record SyncerOpts =
  CurrentState :: KongState
  TargetState :: KongState
  KongClient :: kong_Client
  SilenceWarnings :: bool
  IsKonnect :: bool
  IncludeLicenses :: bool
  EnableEntityActions :: bool

record world =
  dump_Get :: "kong_Client \<Rightarrow> dump_Config \<Rightarrow> error + KongRawState"
  state_Get :: "KongRawState \<Rightarrow> error + KongState"
  file_Get :: "file_Content \<Rightarrow> RenderConfig \<Rightarrow> dump_Config \<Rightarrow> kong_Client \<Rightarrow> error + KongRawState"
  diff_NewSyncer :: "SyncerOpts \<Rightarrow> error + Syncer"
  Solve :: "Syncer \<Rightarrow> int \<Rightarrow> error list option"
  received :: "Syncer \<Rightarrow> EntityAction list"

definition currentState :: "world \<Rightarrow> UpdateStrategyDBMode \<Rightarrow> error + KongState" where
  "currentState w s =
     (case dump_Get w (client s) (dumpConfig s) of
        Inl err \<Rightarrow> Inl (fmt_Errorf (''loading configuration from kong: '' @ Error_text err) [err])
      | Inr rawState \<Rightarrow> state_Get w rawState)"

definition targetState ::
  "world \<Rightarrow> UpdateStrategyDBMode \<Rightarrow> KongState \<Rightarrow> file_Content \<Rightarrow> error + KongState"
where
  "targetState w s currentState_arg targetContent =
     (case file_Get w targetContent
             \<lparr>render_CurrentState = currentState_arg, render_KongVersion = version s\<rparr>
             (dumpConfig s) (client s) of
        Inl err \<Rightarrow> Inl err
      | Inr rawState \<Rightarrow> state_Get w rawState)"

subsection \<open>Event consumption: \<^verbatim>\<open>HandleEvents\<close>\<close>

text \<open>
  What the logger is given: \<^verbatim>\<open>Info(msg, keysAndValues...)\<close> and
  \<^verbatim>\<open>Error(err, msg, keysAndValues...)\<close>.
\<close>

datatype log_entry =
    log_Info string "(string \<times> string) list"
  | log_Error "error option" string "(string \<times> string) list"

text \<open>
  The \<^verbatim>\<open>for { select { ... } }\<close> loop, by recursion on the events received before the branch
  \<^verbatim>\<open>ctx.Done()\<close> is taken; the empty list is that branch. The loop state is the strategy
  \<open>s\<close> the method was called on (it appends to \<^verbatim>\<open>s.resourceErrors\<close>), the local \<^verbatim>\<open>diff\<close>
  and the log. A panic of the classifier is not recovered and ends the loop.
\<close>

fun HandleEvents_loop ::
  "(rawResourceError \<Rightarrow> error + ResourceError) \<Rightarrow> UpdateStrategyDBMode \<Rightarrow> ConfigDiff \<Rightarrow>
   log_entry list \<Rightarrow> EntityAction list \<Rightarrow>
   (UpdateStrategyDBMode \<times> ConfigDiff \<times> log_entry list) outcome"
where
  "HandleEvents_loop parseRaw s diff lg [] = Returned (s, diff, lg)"
| "HandleEvents_loop parseRaw s diff lg (event # events) =
    (let kvs = [(''action'', Action event), (''kind'', Kind (Entity event)),
                (''name'', Name (Entity event))]
     in
       if Error event = None then
         (let lg1 = lg @ [log_Info ''updated gateway entity'' kvs];
              eventDiff = NewEntityDiff (Diff event) (Action event)
          in HandleEvents_loop parseRaw s (diff\<lparr>Entities := Entities diff @ [eventDiff]\<rparr>) lg1 events)
       else
         (let lg1 = lg @ [log_Error (Error event) ''failed updating gateway entity'' kvs] in
          case resourceErrorFromEntityAction parseRaw event of
            Panicked p \<Rightarrow> Panicked p
          | Returned (Inl err) \<Rightarrow>
              HandleEvents_loop parseRaw s diff
                (lg1 @ [log_Error (Some err) ''could not parse entity update error'' []]) events
          | Returned (Inr parsed) \<Rightarrow>
              HandleEvents_loop parseRaw (s\<lparr>resourceErrors := resourceErrors s @ [parsed]\<rparr>)
                diff lg1 events))"

text \<open>
  \<^verbatim>\<open>HandleEvents(ctx, events, diagnostic, hash)\<close>. It returns the strategy it was called on
  as it leaves it, the records it sent on \<^verbatim>\<open>diagnostic.Diffs\<close> and what it logged. It
  holds \<^verbatim>\<open>s.resourceErrorLock\<close> from its first statement to its return.
\<close>

definition UpdateStrategyDBMode_HandleEvents ::
  "(rawResourceError \<Rightarrow> error + ResourceError) \<Rightarrow> UpdateStrategyDBMode \<Rightarrow> EntityAction list \<Rightarrow>
   ClientDiagnostic option \<Rightarrow> string \<Rightarrow>
   (UpdateStrategyDBMode \<times> ConfigDiff list \<times> log_entry list) outcome"
where
  "UpdateStrategyDBMode_HandleEvents parseRaw s events diagnostic_arg hash =
    (case HandleEvents_loop parseRaw s \<lparr>Hash = hash, Entities = []\<rparr> [] events of
       Panicked p \<Rightarrow> Panicked p
     | Returned (s', diff, lg) \<Rightarrow>
         Returned (s', (if diagnostic_arg \<noteq> None then [diff] else []), lg))"

subsection \<open>\<^verbatim>\<open>Update\<close>\<close>

text \<open>
  \<^verbatim>\<open>Update\<close> has a value receiver: \<open>s\<close> is the call's own copy of the strategy. The consumer
  is started as \<^verbatim>\<open>go s.HandleEvents(...)\<close>, a method with a pointer receiver, so it appends to
  the \<^verbatim>\<open>resourceErrors\<close> of that copy, and \<^verbatim>\<open>Update\<close> reads the copy back after
  \<^verbatim>\<open>cancel()\<close> and \<^verbatim>\<open>s.resourceErrorLock.Lock()\<close>. \<^verbatim>\<open>Update\<close> returns an \<^verbatim>\<open>error\<close> and nothing
  else, so the copy is gone when it returns. Its first two arguments are the helpers
  \<^verbatim>\<open>parseRawResourceError\<close> and \<^verbatim>\<open>resourceErrorsToResourceFailures\<close>. The strategy of the
  caller keeps its own slice header for \<^verbatim>\<open>resourceErrors\<close>: \<^verbatim>\<open>append\<close> through the copy writes past the length of that
  header, or into a new array, and assigns the new header to the copy, so the elements the
  caller's strategy holds, a list here, are what they were.

  The two goroutines are put in sequence here: the consumer takes the mutex when it
  starts, handles the events it receives, takes the branch \<^verbatim>\<open>ctx.Done()\<close> after
  \<^verbatim>\<open>cancel()\<close> and releases the mutex, and \<^verbatim>\<open>Update\<close> acquires the mutex after that. This is
  one of the schedules the two goroutines have; the step relation further down has them
  all. A panic in the consumer ends the process, so \<^verbatim>\<open>Update\<close> does not return then.
  Besides the error, the result lists what was sent to the diagnostics sink and what was
  logged.
\<close>

definition UpdateStrategyDBMode_Update ::
  "(rawResourceError \<Rightarrow> error + ResourceError) \<Rightarrow> (ResourceError list \<Rightarrow> 'f list) \<Rightarrow>
   world \<Rightarrow> UpdateStrategyDBMode \<Rightarrow> ContentWithHash \<Rightarrow>
   ('f update_error option \<times> ConfigDiff list \<times> log_entry list) outcome"
where
  "UpdateStrategyDBMode_Update parseRaw toFailures w s targetContent =
    (case currentState w s of
       Inl err \<Rightarrow>
         Returned (Some (Plain (fmt_Errorf
           (''failed getting current state for '' @ BaseRootURL (client s) @ '': ''
              @ Error_text err) [err])), [], [])
     | Inr cs \<Rightarrow>
    (case targetState w s cs (Content targetContent) of
       Inl err \<Rightarrow> Returned (Some (ConfigConflictError err), [], [])
     | Inr ts \<Rightarrow>
    (case diff_NewSyncer w
            \<lparr>CurrentState = cs, TargetState = ts, KongClient = client s,
             SilenceWarnings = True, IsKonnect = isKonnect s, IncludeLicenses = True,
             EnableEntityActions = True\<rparr> of
       Inl err \<Rightarrow>
         Returned (Some (Plain (fmt_Errorf
           (''creating a new syncer for '' @ BaseRootURL (client s) @ '': ''
              @ Error_text err) [err])), [], [])
     | Inr syncer \<Rightarrow>
    (case UpdateStrategyDBMode_HandleEvents parseRaw s (received w syncer) (diagnostic s)
            (Content_Hash targetContent) of
       Panicked p \<Rightarrow> Panicked p
     | Returned (s', sent, lg) \<Rightarrow>
         (let errs = Solve w syncer (concurrency s);
              resourceFailures = toFailures (resourceErrors s')
          in
            case errs of
              Some es \<Rightarrow> Returned (Some (NewUpdateError resourceFailures (ErrArray es)), sent, lg)
            | None \<Rightarrow>
                if length resourceFailures > 0 then
                  Returned (Some (NewUpdateError resourceFailures
                    (Plain (errors_New ''go-database-reconciler found resource errors''))),
                    sent, lg)
                else Returned (None, sent, lg))))))"

text \<open>
  A caller that holds a strategy \<open>s\<close> and calls \<^verbatim>\<open>Update\<close> on it twice, each call with its
  own target and its own answers of the collaborators. Both calls copy the same \<open>s\<close>.
\<close>

definition two_Updates ::
  "(rawResourceError \<Rightarrow> error + ResourceError) \<Rightarrow> (ResourceError list \<Rightarrow> 'f list) \<Rightarrow>
   UpdateStrategyDBMode \<Rightarrow> world \<Rightarrow> ContentWithHash \<Rightarrow> world \<Rightarrow> ContentWithHash \<Rightarrow>
   (('f update_error option \<times> ConfigDiff list \<times> log_entry list) \<times>
    ('f update_error option \<times> ConfigDiff list \<times> log_entry list)) outcome"
where
  "two_Updates parseRaw toFailures s w1 target1 w2 target2 =
    (case UpdateStrategyDBMode_Update parseRaw toFailures w1 s target1 of
       Panicked p \<Rightarrow> Panicked p
     | Returned first \<Rightarrow>
         (case UpdateStrategyDBMode_Update parseRaw toFailures w2 s target2 of
            Panicked p \<Rightarrow> Panicked p
          | Returned second \<Rightarrow> Returned (first, second)))"


subsection \<open>The two goroutines of \<^verbatim>\<open>Update\<close>, step by step\<close>

text \<open>
  From \<^verbatim>\<open>go s.HandleEvents(...)\<close> on, \<^verbatim>\<open>Update\<close> and the consumer run as two goroutines,
  and the Go scheduler may run either whenever it is not blocked. A configuration holds
  where each goroutine stands and what they share: the events \<^verbatim>\<open>Solve\<close> has still to send,
  the events in the channel, whether \<^verbatim>\<open>ctx.Done()\<close> is closed, whether the mutex is locked,
  the copy of the strategy, the consumer's local \<^verbatim>\<open>diff\<close>, what was sent to the diagnostics
  sink, what was logged, and the \<^verbatim>\<open>s.resourceErrors\<close> that \<^verbatim>\<open>Update\<close> read, once it has.
\<close>

datatype Update_pc = at_Solve | at_cancel | at_Lock | at_read | Update_returned

datatype HandleEvents_pc = at_HandleEvents_Lock | at_select | HandleEvents_returned

record configuration =
  unsent :: "EntityAction list"
  channel :: "EntityAction list"
  ctx_Done :: bool
  resourceErrorLock :: bool
  Update_at :: Update_pc
  HandleEvents_at :: HandleEvents_pc
  s_copy :: UpdateStrategyDBMode
  diff_local :: ConfigDiff
  Diffs_sent :: "ConfigDiff list"
  logged :: "log_entry list"
  Update_read :: "ResourceError list option"

datatype run = Running configuration | Crashed panic

definition initial :: "UpdateStrategyDBMode \<Rightarrow> EntityAction list \<Rightarrow> string \<Rightarrow> configuration" where
  "initial s events hash =
     \<lparr>unsent = events, channel = [], ctx_Done = False, resourceErrorLock = False,
      Update_at = at_Solve, HandleEvents_at = at_HandleEvents_Lock, s_copy = s,
      diff_local = \<lparr>Hash = hash, Entities = []\<rparr>, Diffs_sent = [], logged = [],
      Update_read = None\<rparr>"

text \<open>
  One step of one goroutine. \<open>capacity\<close> is the capacity of the channel of the syncer, which
  the reconciler library decides. While \<^verbatim>\<open>Solve\<close> runs it sends its events, into the channel
  when there is room, or straight to the consumer when that waits in its \<^verbatim>\<open>select\<close>; it
  returns when all are sent. \<^verbatim>\<open>Lock\<close> takes a step only when the mutex is free. The
  consumer's \<^verbatim>\<open>select\<close> may take the branch of an event when there is one to receive, and the
  branch \<^verbatim>\<open>ctx.Done()\<close> when the context is cancelled; when both are ready either may be
  taken. What the consumer does with one event is one round of \<open>HandleEvents_loop\<close>. A
  panic ends the process.
\<close>

inductive step ::
  "(rawResourceError \<Rightarrow> error + ResourceError) \<Rightarrow> nat \<Rightarrow> run \<Rightarrow> run \<Rightarrow> bool"
  for parseRaw :: "rawResourceError \<Rightarrow> error + ResourceError" and capacity :: nat
where
  Solve_sends:
    "Update_at c = at_Solve \<Longrightarrow> unsent c = event # events \<Longrightarrow>
     length (channel c) < capacity \<Longrightarrow>
     step parseRaw capacity (Running c)
       (Running (c\<lparr>unsent := events, channel := channel c @ [event]\<rparr>))"
| Solve_returns:
    "Update_at c = at_Solve \<Longrightarrow> unsent c = [] \<Longrightarrow>
     step parseRaw capacity (Running c) (Running (c\<lparr>Update_at := at_cancel\<rparr>))"
| cancel:
    "Update_at c = at_cancel \<Longrightarrow>
     step parseRaw capacity (Running c) (Running (c\<lparr>ctx_Done := True, Update_at := at_Lock\<rparr>))"
| Update_locks:
    "Update_at c = at_Lock \<Longrightarrow> \<not> resourceErrorLock c \<Longrightarrow>
     step parseRaw capacity (Running c)
       (Running (c\<lparr>resourceErrorLock := True, Update_at := at_read\<rparr>))"
| Update_reads:
    "Update_at c = at_read \<Longrightarrow>
     step parseRaw capacity (Running c)
       (Running (c\<lparr>Update_read := Some (resourceErrors (s_copy c)),
                  resourceErrorLock := False, Update_at := Update_returned\<rparr>))"
| HandleEvents_locks:
    "HandleEvents_at c = at_HandleEvents_Lock \<Longrightarrow> \<not> resourceErrorLock c \<Longrightarrow>
     step parseRaw capacity (Running c)
       (Running (c\<lparr>resourceErrorLock := True, HandleEvents_at := at_select\<rparr>))"
| receives:
    "HandleEvents_at c = at_select \<Longrightarrow> channel c = event # events \<Longrightarrow>
     HandleEvents_loop parseRaw (s_copy c) (diff_local c) (logged c) [event]
       = Returned (s', diff', lg') \<Longrightarrow>
     step parseRaw capacity (Running c)
       (Running (c\<lparr>channel := events, s_copy := s', diff_local := diff', logged := lg'\<rparr>))"
| receives_panics:
    "HandleEvents_at c = at_select \<Longrightarrow> channel c = event # events \<Longrightarrow>
     HandleEvents_loop parseRaw (s_copy c) (diff_local c) (logged c) [event] = Panicked p \<Longrightarrow>
     step parseRaw capacity (Running c) (Crashed p)"
| receives_from_Solve:
    "HandleEvents_at c = at_select \<Longrightarrow> channel c = [] \<Longrightarrow>
     Update_at c = at_Solve \<Longrightarrow> unsent c = event # events \<Longrightarrow>
     HandleEvents_loop parseRaw (s_copy c) (diff_local c) (logged c) [event]
       = Returned (s', diff', lg') \<Longrightarrow>
     step parseRaw capacity (Running c)
       (Running (c\<lparr>unsent := events, s_copy := s', diff_local := diff', logged := lg'\<rparr>))"
| receives_from_Solve_panics:
    "HandleEvents_at c = at_select \<Longrightarrow> channel c = [] \<Longrightarrow>
     Update_at c = at_Solve \<Longrightarrow> unsent c = event # events \<Longrightarrow>
     HandleEvents_loop parseRaw (s_copy c) (diff_local c) (logged c) [event] = Panicked p \<Longrightarrow>
     step parseRaw capacity (Running c) (Crashed p)"
| Done:
    "HandleEvents_at c = at_select \<Longrightarrow> ctx_Done c \<Longrightarrow>
     step parseRaw capacity (Running c)
       (Running (c\<lparr>Diffs_sent := Diffs_sent c @
                     (if diagnostic (s_copy c) \<noteq> None then [diff_local c] else []),
                  resourceErrorLock := False, HandleEvents_at := HandleEvents_returned\<rparr>))"

text \<open>Executions: any number of steps.\<close>

definition steps ::
  "(rawResourceError \<Rightarrow> error + ResourceError) \<Rightarrow> nat \<Rightarrow> run \<Rightarrow> run \<Rightarrow> bool" where
  "steps parseRaw capacity = rtranclp (step parseRaw capacity)"

subsection \<open>What a run is to collect\<close>

text \<open>
  The two lists of the specification, to compare \<^verbatim>\<open>HandleEvents\<close> with: the records of the
  events with an error whose classification returns a record, and the entity diffs of the
  events without an error, both in the order of arrival.
\<close>

definition spec_classified ::
  "(rawResourceError \<Rightarrow> error + ResourceError) \<Rightarrow> EntityAction list \<Rightarrow> ResourceError list"
where
  "spec_classified parseRaw events =
     concat (map (\<lambda>event.
       if Error event = None then []
       else (case resourceErrorFromEntityAction parseRaw event of
               Returned (Inr parsed) \<Rightarrow> [parsed]
             | _ \<Rightarrow> [])) events)"

definition spec_error_free :: "EntityAction list \<Rightarrow> EntityDiff list" where
  "spec_error_free events =
     map (\<lambda>event. NewEntityDiff (Diff event) (Action event))
       (filter (\<lambda>event. Error event = None) events)"

section \<open>Properties of the classifier\<close>

text \<open>
  The selected snapshot of an event is \<^verbatim>\<open>event.Entity.New\<close> unless that is the nil interface,
  and \<^verbatim>\<open>event.Entity.Old\<close> then. The lemmas follow the classifier from its first check to its
  last, for every helper \<open>parseRaw\<close>.
\<close>

lemma deref_tags_no_nil:
  "None \<notin> set tags \<Longrightarrow> deref_tags actualTags tags = Returned (actualTags @ map the tags)"
proof (induction tags arbitrary: actualTags)
  case Nil
  show ?case by simp
next
  case (Cons s tags)
  then show ?case by (cases s) auto
qed

lemma deref_tags_nil:
  "None \<in> set tags \<Longrightarrow> deref_tags actualTags tags = Panicked nil_pointer_dereference"
  by (induction tags arbitrary: actualTags) (auto split: option.splits)

lemma resourceErrorFromEntityAction_not_Struct:
  assumes "Kind_of (reflect_Indirect (reflect_ValueOf
             (if New (Entity event) \<noteq> Nil_any then New (Entity event) else Old (Entity event))))
           = k"
    and "k \<noteq> reflect_Struct"
  shows "resourceErrorFromEntityAction parseRaw event =
           Returned (Inl (fmt_Errorf
             (''entity '' @ Kind (Entity event) @ ''/'' @ Name (Entity event) @ '' is ''
                @ Kind_String k @ '', not Struct'') []))"
  using assms by (simp add: resourceErrorFromEntityAction_def Let_def)

lemma resourceErrorFromEntityAction_no_Tags_field:
  assumes "reflect_Indirect (reflect_ValueOf
             (if New (Entity event) \<noteq> Nil_any then New (Entity event) else Old (Entity event)))
           = Value_of (StructValue ty flds)"
    and "map_of flds ''Tags'' = None"
  shows "resourceErrorFromEntityAction parseRaw event =
           Panicked (reflect_ValueError ''reflect.Value.IsZero'' reflect_Invalid)"
  using assms by (simp add: resourceErrorFromEntityAction_def Let_def)

lemma resourceErrorFromEntityAction_struct_tags:
  assumes "reflect_Indirect (reflect_ValueOf
             (if New (Entity event) \<noteq> Nil_any then New (Entity event) else Old (Entity event)))
           = Value_of (StructValue ty flds)"
    and "map_of flds ''Tags'' = Some (StringPtrs (Some tags))"
  shows "resourceErrorFromEntityAction parseRaw event =
           (case deref_tags [] tags of
              Panicked p \<Rightarrow> Panicked p
            | Returned actualTags \<Rightarrow>
                Returned (parseRaw
                  \<lparr>raw_Name = Name (Entity event), raw_Tags = actualTags,
                   raw_Problems = ['''' \<mapsto> Sprintf_error (Error event)]\<rparr>))"
  using assms by (simp add: resourceErrorFromEntityAction_def Let_def)

lemma resourceErrorFromEntityAction_nil_tag:
  assumes "reflect_Indirect (reflect_ValueOf
             (if New (Entity event) \<noteq> Nil_any then New (Entity event) else Old (Entity event)))
           = Value_of (StructValue ty flds)"
    and "map_of flds ''Tags'' = Some (StringPtrs (Some tags))"
    and "None \<in> set tags"
  shows "resourceErrorFromEntityAction parseRaw event = Panicked nil_pointer_dereference"
  using assms(3)
  by (simp add: resourceErrorFromEntityAction_struct_tags [OF assms(1,2)] deref_tags_nil)

lemma resourceErrorFromEntityAction_well_formed:
  assumes "reflect_Indirect (reflect_ValueOf
             (if New (Entity event) \<noteq> Nil_any then New (Entity event) else Old (Entity event)))
           = Value_of (StructValue ty flds)"
    and "map_of flds ''Tags'' = Some (StringPtrs (Some tags))"
    and "None \<notin> set tags"
  shows "resourceErrorFromEntityAction parseRaw event =
           Returned (parseRaw
             \<lparr>raw_Name = Name (Entity event), raw_Tags = map the tags,
              raw_Problems = ['''' \<mapsto> Sprintf_error (Error event)]\<rparr>)"
  using assms(3)
  by (simp add: resourceErrorFromEntityAction_struct_tags [OF assms(1,2)] deref_tags_no_nil)

lemma resourceErrorFromEntityAction_Kind_update:
  assumes "reflect_Indirect (reflect_ValueOf
             (if New (Entity event) \<noteq> Nil_any then New (Entity event) else Old (Entity event)))
           = Value_of (StructValue ty flds)"
    and "map_of flds ''Tags'' = Some (StringPtrs (Some tags))"
  shows "resourceErrorFromEntityAction parseRaw (event\<lparr>Entity := (Entity event)\<lparr>Kind := k\<rparr>\<rparr>) =
         resourceErrorFromEntityAction parseRaw event"
proof -
  let ?event' = "event\<lparr>Entity := (Entity event)\<lparr>Kind := k\<rparr>\<rparr>"
  have "reflect_Indirect (reflect_ValueOf
          (if New (Entity ?event') \<noteq> Nil_any then New (Entity ?event') else Old (Entity ?event')))
        = Value_of (StructValue ty flds)"
    using assms(1) by (simp split: if_splits)
  then have "resourceErrorFromEntityAction parseRaw ?event' =
           (case deref_tags [] tags of
              Panicked p \<Rightarrow> Panicked p
            | Returned actualTags \<Rightarrow>
                Returned (parseRaw
                  \<lparr>raw_Name = Name (Entity ?event'), raw_Tags = actualTags,
                   raw_Problems = ['''' \<mapsto> Sprintf_error (Error ?event')]\<rparr>))"
    using assms(2) by (rule resourceErrorFromEntityAction_struct_tags)
  moreover have "resourceErrorFromEntityAction parseRaw event =
           (case deref_tags [] tags of
              Panicked p \<Rightarrow> Panicked p
            | Returned actualTags \<Rightarrow>
                Returned (parseRaw
                  \<lparr>raw_Name = Name (Entity event), raw_Tags = actualTags,
                   raw_Problems = ['''' \<mapsto> Sprintf_error (Error event)]\<rparr>))"
    using assms by (rule resourceErrorFromEntityAction_struct_tags)
  ultimately show ?thesis by (simp split: outcome.splits)
qed

text \<open>
  Claim C1, as amended. For every event that carries an error and whose selected snapshot
  is a struct, or a pointer to one, with a field \<^verbatim>\<open>Tags\<close> of type \<^verbatim>\<open>[]*string\<close> that is not
  nil and has no nil entry, classification returns a \<^verbatim>\<open>ResourceError\<close> whose name is the
  event's entity name, whose tags are the tag values in order and whose problems map is
  exactly the empty field path mapped to the event's error text. The event's entity kind
  is not handed to \<^verbatim>\<open>parseRawResourceError\<close>: the result is the same whatever the kind is.
\<close>

theorem classification_of_well_formed_event:
  assumes "Error event = Some e"
    and "reflect_Indirect (reflect_ValueOf
           (if New (Entity event) \<noteq> Nil_any then New (Entity event) else Old (Entity event)))
         = Value_of (StructValue ty flds)"
    and "map_of flds ''Tags'' = Some (StringPtrs (Some tags))"
    and "None \<notin> set tags"
  shows "(\<exists>r. resourceErrorFromEntityAction parseRawResourceError event = Returned (Inr r)
             \<and> re_name r = Name (Entity event)
             \<and> re_tags r = map the tags
             \<and> re_problems r = ['''' \<mapsto> Error_text e])
       \<and> resourceErrorFromEntityAction parseRawResourceError
            (event\<lparr>Entity := (Entity event)\<lparr>Kind := k\<rparr>\<rparr>)
          = resourceErrorFromEntityAction parseRawResourceError event"
proof
  have "resourceErrorFromEntityAction parseRawResourceError event =
          Returned (parseRawResourceError
             \<lparr>raw_Name = Name (Entity event), raw_Tags = map the tags,
              raw_Problems = ['''' \<mapsto> Sprintf_error (Error event)]\<rparr>)"
    using assms(2-4) by (rule resourceErrorFromEntityAction_well_formed)
  with assms(1)
  show "\<exists>r. resourceErrorFromEntityAction parseRawResourceError event = Returned (Inr r)
             \<and> re_name r = Name (Entity event)
             \<and> re_tags r = map the tags
             \<and> re_problems r = ['''' \<mapsto> Error_text e]"
    by (simp add: parseRawResourceError_def)
next
  show "resourceErrorFromEntityAction parseRawResourceError
            (event\<lparr>Entity := (Entity event)\<lparr>Kind := k\<rparr>\<rparr>)
          = resourceErrorFromEntityAction parseRawResourceError event"
    using assms(2,3) by (rule resourceErrorFromEntityAction_Kind_update)
qed

theorem classification_of_well_formed_event_witness:
  "(\<exists>r. resourceErrorFromEntityAction parseRawResourceError
          \<lparr>Action = ''create'',
           Entity = \<lparr>Name = ''svc-1'', Kind = ''service'', Old = Nil_any,
                     New = Ptr (Some (StructValue ''state.Service''
                       [(''Tags'', StringPtrs (Some [Some ''team-a'', Some ''team-a/svc-1'']))]))\<rparr>,
           Diff = '''', Error = Some (Opaque ''schema violation'')\<rparr> = Returned (Inr r)
       \<and> re_name r = ''svc-1''
       \<and> re_tags r = [''team-a'', ''team-a/svc-1'']
       \<and> re_problems r = ['''' \<mapsto> ''schema violation''])"
  using classification_of_well_formed_event
    [of "\<lparr>Action = ''create'',
           Entity = \<lparr>Name = ''svc-1'', Kind = ''service'', Old = Nil_any,
                     New = Ptr (Some (StructValue ''state.Service''
                       [(''Tags'', StringPtrs (Some [Some ''team-a'', Some ''team-a/svc-1'']))]))\<rparr>,
           Diff = '''', Error = Some (Opaque ''schema violation'')\<rparr>"
        "Opaque ''schema violation''" "''state.Service''"
        "[(''Tags'', StringPtrs (Some [Some ''team-a'', Some ''team-a/svc-1'']))]"
        "[Some ''team-a'', Some ''team-a/svc-1'']" "''service''"]
  by simp

text \<open>
  The specification's example event, with entity kind \<^verbatim>\<open>service\<close>: the kind of the result
  is not the event's entity kind.
\<close>

theorem classification_kind_counterexample:
  "resourceErrorFromEntityAction parseRawResourceError
          \<lparr>Action = ''create'',
           Entity = \<lparr>Name = ''svc-1'', Kind = ''service'', Old = Nil_any,
                     New = Ptr (Some (StructValue ''state.Service''
                       [(''Tags'', StringPtrs (Some [Some ''team-a'', Some ''team-a/svc-1'']))]))\<rparr>,
           Diff = '''', Error = Some (Opaque ''schema violation'')\<rparr>
     = Returned (Inr \<lparr>re_name = ''svc-1'', re_kind = '''',
                      re_tags = [''team-a'', ''team-a/svc-1''],
                      re_problems = ['''' \<mapsto> ''schema violation'']\<rparr>)
   \<and> re_kind \<lparr>re_name = ''svc-1'', re_kind = '''',
                      re_tags = [''team-a'', ''team-a/svc-1''],
                      re_problems = ['''' \<mapsto> ''schema violation'']\<rparr>
       \<noteq> Kind \<lparr>Name = ''svc-1'', Kind = ''service'', Old = Nil_any,
                     New = Ptr (Some (StructValue ''state.Service''
                       [(''Tags'', StringPtrs (Some [Some ''team-a'', Some ''team-a/svc-1'']))]))\<rparr>"
  by (simp add: resourceErrorFromEntityAction_def parseRawResourceError_def)


text \<open>
  Claim C4 says that nil entries of the tag list are skipped and that classification does
  not crash. The loop of the classifier dereferences every entry: on a tag list with a nil
  entry the classifier panics, whatever the helper is, and returns nothing. Here the
  entries are \<^verbatim>\<open>"team-a"\<close>, nil and \<^verbatim>\<open>"team-a/svc-1"\<close>.
\<close>

theorem classification_panics_on_nil_tag:
  "resourceErrorFromEntityAction parseRaw
     \<lparr>Action = ''update'',
      Entity = \<lparr>Name = ''svc-1'', Kind = ''service'', Old = Nil_any,
                New = Ptr (Some (StructValue ''state.Service''
                  [(''Tags'', StringPtrs (Some [Some ''team-a'', None, Some ''team-a/svc-1'']))]))\<rparr>,
      Diff = '''', Error = Some (Opaque ''schema violation'')\<rparr>
   = Panicked nil_pointer_dereference"
  by (simp add: resourceErrorFromEntityAction_def)

section \<open>Properties of \<^verbatim>\<open>HandleEvents\<close>\<close>

lemma spec_classified_Nil: "spec_classified parseRaw [] = []"
  by (simp add: spec_classified_def)

lemma spec_classified_Cons:
  "spec_classified parseRaw (event # events) =
     (if Error event = None then []
      else (case resourceErrorFromEntityAction parseRaw event of
              Returned (Inr parsed) \<Rightarrow> [parsed]
            | _ \<Rightarrow> [])) @ spec_classified parseRaw events"
  by (simp add: spec_classified_def)

lemma spec_error_free_Nil: "spec_error_free [] = []"
  by (simp add: spec_error_free_def)

lemma spec_error_free_Cons:
  "spec_error_free (event # events) =
     (if Error event = None then [NewEntityDiff (Diff event) (Action event)] else [])
       @ spec_error_free events"
  by (simp add: spec_error_free_def)

text \<open>
  When the loop returns, the strategy differs from the one it started with in its
  \<^verbatim>\<open>resourceErrors\<close> only, which have grown by the classified records, and the local
  \<^verbatim>\<open>diff\<close> has grown by the diffs of the events without an error.
\<close>

lemma HandleEvents_loop_Returned:
  "HandleEvents_loop parseRaw s diff lg events = Returned (s', diff', lg') \<Longrightarrow>
     s' = s\<lparr>resourceErrors := resourceErrors s @ spec_classified parseRaw events\<rparr>
   \<and> diff' = diff\<lparr>Entities := Entities diff @ spec_error_free events\<rparr>"
proof (induction events arbitrary: s diff lg)
  case Nil
  then show ?case by (simp add: spec_classified_Nil spec_error_free_Nil)
next
  case (Cons event events)
  show ?case
  proof (cases "Error event = None")
    case True
    with Cons.prems
    have "HandleEvents_loop parseRaw s
            (diff\<lparr>Entities := Entities diff @ [NewEntityDiff (Diff event) (Action event)]\<rparr>)
            (lg @ [log_Info ''updated gateway entity''
                     [(''action'', Action event), (''kind'', Kind (Entity event)),
                      (''name'', Name (Entity event))]]) events
          = Returned (s', diff', lg')"
      by (simp add: Let_def)
    from Cons.IH [OF this] True show ?thesis
      by (simp add: spec_classified_Cons spec_error_free_Cons)
  next
    case False
    show ?thesis
    proof (cases "resourceErrorFromEntityAction parseRaw event")
      case (Panicked p)
      with Cons.prems False show ?thesis by (simp add: Let_def)
    next
      case (Returned res)
      show ?thesis
      proof (cases res)
        case (Inl err)
        with Cons.prems False Returned
        have "HandleEvents_loop parseRaw s diff
                (lg @ [log_Error (Error event) ''failed updating gateway entity''
                         [(''action'', Action event), (''kind'', Kind (Entity event)),
                          (''name'', Name (Entity event))]]
                    @ [log_Error (Some err) ''could not parse entity update error'' []]) events
              = Returned (s', diff', lg')"
          by (simp add: Let_def)
        from Cons.IH [OF this] False Returned Inl show ?thesis
          by (simp add: spec_classified_Cons spec_error_free_Cons)
      next
        case (Inr parsed)
        with Cons.prems False Returned
        have "HandleEvents_loop parseRaw (s\<lparr>resourceErrors := resourceErrors s @ [parsed]\<rparr>) diff
                (lg @ [log_Error (Error event) ''failed updating gateway entity''
                         [(''action'', Action event), (''kind'', Kind (Entity event)),
                          (''name'', Name (Entity event))]]) events
              = Returned (s', diff', lg')"
          by (simp add: Let_def)
        from Cons.IH [OF this] False Returned Inr show ?thesis
          by (simp add: spec_classified_Cons spec_error_free_Cons)
      qed
    qed
  qed
qed

text \<open>The loop panics exactly when the classification of an event with an error does.\<close>

lemma HandleEvents_loop_Panicked:
  "HandleEvents_loop parseRaw s diff lg events = Panicked p \<Longrightarrow>
     \<exists>event \<in> set events.
       Error event \<noteq> None \<and> resourceErrorFromEntityAction parseRaw event = Panicked p"
proof (induction events arbitrary: s diff lg)
  case Nil
  then show ?case by simp
next
  case (Cons event events)
  then show ?case
    by (auto simp: Let_def split: if_splits outcome.splits sum.splits)
qed

lemma HandleEvents_loop_returns:
  "\<forall>event \<in> set events. Error event \<noteq> None \<longrightarrow>
       (\<exists>res. resourceErrorFromEntityAction parseRaw event = Returned res) \<Longrightarrow>
     \<exists>r. HandleEvents_loop parseRaw s diff lg events = Returned r"
proof (cases "HandleEvents_loop parseRaw s diff lg events")
  case (Returned r)
  then show ?thesis by blast
next
  case (Panicked p)
  assume ok: "\<forall>event \<in> set events. Error event \<noteq> None \<longrightarrow>
       (\<exists>res. resourceErrorFromEntityAction parseRaw event = Returned res)"
  from HandleEvents_loop_Panicked [OF Panicked] ok show ?thesis by auto
qed

text \<open>
  An event whose classification returns an error is logged twice and dropped: the loop
  goes on with the strategy and the diff as they were.
\<close>

lemma HandleEvents_loop_classification_error:
  assumes "Error event \<noteq> None"
    and "resourceErrorFromEntityAction parseRaw event = Returned (Inl err)"
  shows "HandleEvents_loop parseRaw s diff lg (event # events) =
         HandleEvents_loop parseRaw s diff
           (lg @ [log_Error (Error event) ''failed updating gateway entity''
                    [(''action'', Action event), (''kind'', Kind (Entity event)),
                     (''name'', Name (Entity event))],
                  log_Error (Some err) ''could not parse entity update error'' []]) events"
  using assms by (cases "Error event") (simp_all add: Let_def)

text \<open>
  What \<^verbatim>\<open>HandleEvents\<close> returns: the strategy with the classified records appended, one
  record for the sink if there is a sink and none otherwise, sent after the last event.
\<close>

lemma HandleEvents_Returned:
  assumes "UpdateStrategyDBMode_HandleEvents parseRaw s events d hash = Returned (s', sent, lg)"
  shows "s' = s\<lparr>resourceErrors := resourceErrors s @ spec_classified parseRaw events\<rparr>"
    and "sent = (if d \<noteq> None then [\<lparr>Hash = hash, Entities = spec_error_free events\<rparr>] else [])"
proof -
  from assms obtain diff' where
    loop: "HandleEvents_loop parseRaw s \<lparr>Hash = hash, Entities = []\<rparr> [] events
             = Returned (s', diff', lg)"
    and sent: "sent = (if d \<noteq> None then [diff'] else [])"
    by (auto simp: UpdateStrategyDBMode_HandleEvents_def split: outcome.splits)
  from HandleEvents_loop_Returned [OF loop]
  show "s' = s\<lparr>resourceErrors := resourceErrors s @ spec_classified parseRaw events\<rparr>"
    by simp
  from HandleEvents_loop_Returned [OF loop] sent
  show "sent = (if d \<noteq> None then [\<lparr>Hash = hash, Entities = spec_error_free events\<rparr>] else [])"
    by simp
qed

lemma HandleEvents_Panicked:
  "UpdateStrategyDBMode_HandleEvents parseRaw s events d hash = Panicked p \<Longrightarrow>
     \<exists>event \<in> set events.
       Error event \<noteq> None \<and> resourceErrorFromEntityAction parseRaw event = Panicked p"
proof -
  assume "UpdateStrategyDBMode_HandleEvents parseRaw s events d hash = Panicked p"
  then have "HandleEvents_loop parseRaw s \<lparr>Hash = hash, Entities = []\<rparr> [] events = Panicked p"
    by (simp add: UpdateStrategyDBMode_HandleEvents_def split: outcome.splits prod.splits)
  then show ?thesis by (rule HandleEvents_loop_Panicked)
qed

text \<open>
  Claim C5 says that classification is total and fail-soft: a snapshot that is not a
  struct, or that lacks the field \<^verbatim>\<open>Tags\<close>, fails classification with an error, and the
  event is logged and dropped while the remaining events are consumed. For a snapshot that
  is not a struct the classifier does return an error (lemma
  \<open>resourceErrorFromEntityAction_not_Struct\<close>), and an event whose classification returns
  an error is dropped (lemma \<open>HandleEvents_loop_classification_error\<close>). For a struct with
  no field \<^verbatim>\<open>Tags\<close> it does not: \<^verbatim>\<open>FieldByName\<close> returns the zero \<^verbatim>\<open>Value\<close>, on which
  \<^verbatim>\<open>IsZero\<close> panics. Here the first event is a failed update of a license, a struct with the
  fields \<^verbatim>\<open>ID\<close> and \<^verbatim>\<open>Payload\<close>; the consumer panics on it and the second event, a failed
  update of a service with a well-formed tag list, is never reported.
\<close>

theorem HandleEvents_panics_on_struct_without_Tags:
  "UpdateStrategyDBMode_HandleEvents parseRaw s
     [\<lparr>Action = ''update'',
       Entity = \<lparr>Name = ''license-1'', Kind = ''license'', Old = Nil_any,
                 New = Ptr (Some (StructValue ''state.License''
                   [(''ID'', OtherField False), (''Payload'', OtherField False)]))\<rparr>,
       Diff = '''', Error = Some (Opaque ''invalid license'')\<rparr>,
      \<lparr>Action = ''update'',
       Entity = \<lparr>Name = ''svc-1'', Kind = ''service'', Old = Nil_any,
                 New = Ptr (Some (StructValue ''state.Service''
                   [(''Tags'', StringPtrs (Some [Some ''team-a'']))]))\<rparr>,
       Diff = '''', Error = Some (Opaque ''schema violation'')\<rparr>]
     d hash
   = Panicked (reflect_ValueError ''reflect.Value.IsZero'' reflect_Invalid)"
  by (simp add: UpdateStrategyDBMode_HandleEvents_def resourceErrorFromEntityAction_def)


section \<open>Properties of the whole-state strategy\<close>

text \<open>
  Claim C2. For every call of the whole-state \<^verbatim>\<open>Update\<close> in which serialization succeeds
  and the reload fails with error \<open>reloadErr\<close> and body \<open>errBody\<close>: if the body parses into
  a list of entity errors, \<^verbatim>\<open>Update\<close> returns the reload error, that list and the body as it
  was returned; if parsing fails, \<^verbatim>\<open>Update\<close> returns an error that wraps both the reload
  error and the parse error, a nil list, and the body still.
\<close>

theorem InMemory_Update_reload_failure:
  assumes "json_Marshal (configConverter s (Content targetState_arg)) = Inr config"
    and "configService s config True True = (errBody, Some reloadErr)"
  shows "(\<forall>entityErrs. parseFlatEntityErrors errBody = Inr entityErrs \<longrightarrow>
            UpdateStrategyInMemory_Update json_Marshal parseFlatEntityErrors s targetState_arg
              = (Some reloadErr, entityErrs, errBody))
       \<and> (\<forall>parseErr. parseFlatEntityErrors errBody = Inl parseErr \<longrightarrow>
            UpdateStrategyInMemory_Update json_Marshal parseFlatEntityErrors s targetState_arg
              = (Some (fmt_Errorf
                   (''failed to parse config error: '' @ Error_text reloadErr @ '': ''
                      @ Error_text parseErr) [reloadErr, parseErr]),
                 None, errBody))"
  using assms by (simp add: UpdateStrategyInMemory_Update_def)

theorem InMemory_Update_reload_failure_witness:
  "UpdateStrategyInMemory_Update (\<lambda>c. Inr ''config'')
     (\<lambda>body. Inr (Some [(''svc1'', [''t1''], [(''host'', ''required'')])]))
     \<lparr>configService = (\<lambda>config checkHash flattenErrors.
         (Some ''flattened_errors'', Some (Opaque ''HTTP status 400''))),
      configConverter = (\<lambda>content. DBLessConfig ''dbless'')\<rparr>
     \<lparr>Content = file_Content ''content'', Content_Hash = ''abc123''\<rparr>
   = (Some (Opaque ''HTTP status 400''),
      Some [(''svc1'', [''t1''], [(''host'', ''required'')])],
      Some ''flattened_errors'')
   \<and> UpdateStrategyInMemory_Update (\<lambda>c. Inr ''config'')
     (\<lambda>body. (Inl (Opaque ''invalid character'') :: error + (string \<times> string list) list option))
     \<lparr>configService = (\<lambda>config checkHash flattenErrors.
         (Some ''not json'', Some (Opaque ''HTTP status 400''))),
      configConverter = (\<lambda>content. DBLessConfig ''dbless'')\<rparr>
     \<lparr>Content = file_Content ''content'', Content_Hash = ''abc123''\<rparr>
   = (Some (fmt_Errorf ''failed to parse config error: HTTP status 400: invalid character''
              [Opaque ''HTTP status 400'', Opaque ''invalid character'']),
      None, Some ''not json'')"
  using InMemory_Update_reload_failure
    [of "\<lambda>c. Inr ''config''"
        "\<lparr>configService = (\<lambda>config checkHash flattenErrors.
            (Some ''flattened_errors'', Some (Opaque ''HTTP status 400''))),
          configConverter = (\<lambda>content. DBLessConfig ''dbless'')\<rparr>"
        "\<lparr>Content = file_Content ''content'', Content_Hash = ''abc123''\<rparr>"
        "''config''" "Some ''flattened_errors''" "Opaque ''HTTP status 400''"
        "\<lambda>body. Inr (Some [(''svc1'', [''t1''], [(''host'', ''required'')])])"]
    InMemory_Update_reload_failure
    [of "\<lambda>c. Inr ''config''"
        "\<lparr>configService = (\<lambda>config checkHash flattenErrors.
            (Some ''not json'', Some (Opaque ''HTTP status 400''))),
          configConverter = (\<lambda>content. DBLessConfig ''dbless'')\<rparr>"
        "\<lparr>Content = file_Content ''content'', Content_Hash = ''abc123''\<rparr>"
        "''config''" "Some ''not json''" "Opaque ''HTTP status 400''"
        "\<lambda>body. (Inl (Opaque ''invalid character'') :: error + (string \<times> string list) list option)"]
  by simp

text \<open>
  Claim C10. For every call of the whole-state \<^verbatim>\<open>Update\<close> in which serialization succeeds
  and the reload returns no error, \<^verbatim>\<open>Update\<close> returns a nil error, a nil list of resource
  errors and a nil body, whatever body the reload returned.
\<close>

theorem InMemory_Update_success:
  assumes "json_Marshal (configConverter s (Content targetState_arg)) = Inr config"
    and "configService s config True True = (errBody, None)"
  shows "UpdateStrategyInMemory_Update json_Marshal parseFlatEntityErrors s targetState_arg
           = (None, None, None)"
  using assms by (simp add: UpdateStrategyInMemory_Update_def)

theorem InMemory_Update_success_witness:
  "UpdateStrategyInMemory_Update (\<lambda>c. Inr ''config'')
     (\<lambda>body. (Inl (Opaque ''invalid character'') :: error + (string \<times> string list) list option))
     \<lparr>configService = (\<lambda>config checkHash flattenErrors. (Some ''{}'', None)),
      configConverter = (\<lambda>content. DBLessConfig ''dbless'')\<rparr>
     \<lparr>Content = file_Content ''content'', Content_Hash = ''abc123''\<rparr>
   = (None, None, None)"
  using InMemory_Update_success
    [of "\<lambda>c. Inr ''config''"
        "\<lparr>configService = (\<lambda>config checkHash flattenErrors. (Some ''{}'', None)),
          configConverter = (\<lambda>content. DBLessConfig ''dbless'')\<rparr>"
        "\<lparr>Content = file_Content ''content'', Content_Hash = ''abc123''\<rparr>"
        "''config''" "Some ''{}''"
        "\<lambda>body. (Inl (Opaque ''invalid character'') :: error + (string \<times> string list) list option)"]
  by simp

text \<open>Serialization failure is a local error with no resource detail and no body.\<close>

lemma InMemory_Update_Marshal_failure:
  assumes "json_Marshal (configConverter s (Content targetState_arg)) = Inl err"
  shows "UpdateStrategyInMemory_Update json_Marshal parseFlatEntityErrors s targetState_arg
           = (Some (fmt_Errorf (''constructing kong configuration: '' @ Error_text err) [err]),
              None, None)"
  using assms by (simp add: UpdateStrategyInMemory_Update_def)


section \<open>Properties of the diff-apply strategy\<close>

text \<open>
  Once the live state is fetched, the target state rendered and the syncer built,
  \<^verbatim>\<open>Update\<close> is the consumer followed by the aggregation.
\<close>

lemma Update_after_NewSyncer:
  assumes "currentState w s = Inr cs"
    and "targetState w s cs (Content targetContent) = Inr ts"
    and "diff_NewSyncer w
           \<lparr>CurrentState = cs, TargetState = ts, KongClient = client s,
            SilenceWarnings = True, IsKonnect = isKonnect s, IncludeLicenses = True,
            EnableEntityActions = True\<rparr> = Inr syncer"
  shows "UpdateStrategyDBMode_Update parseRaw toFailures w s targetContent =
          (case UpdateStrategyDBMode_HandleEvents parseRaw s (received w syncer) (diagnostic s)
                  (Content_Hash targetContent) of
             Panicked p \<Rightarrow> Panicked p
           | Returned (s', sent, lg) \<Rightarrow>
               Returned
                 ((case Solve w syncer (concurrency s) of
                     Some es \<Rightarrow> Some (UpdateError (toFailures (resourceErrors s')) (ErrArray es))
                   | None \<Rightarrow>
                       if toFailures (resourceErrors s') \<noteq> [] then
                         Some (UpdateError (toFailures (resourceErrors s'))
                           (Plain (errors_New ''go-database-reconciler found resource errors'')))
                       else None),
                  sent, lg))"
  using assms
  by (simp add: UpdateStrategyDBMode_Update_def NewUpdateError_def Let_def
        split: outcome.splits option.splits)

text \<open>
  Claim C9. In every diff-apply \<^verbatim>\<open>Update\<close> call, a failure to render the target state
  against the live snapshot and the proxy version is returned as a
  \<^verbatim>\<open>ConfigConflictError\<close> that holds the failure, and nothing is sent or logged; a failure to
  fetch the live state and a failure to build the syncer are returned as errors of
  \<^verbatim>\<open>fmt.Errorf\<close> that wrap the failure, which are of another kind.
\<close>

theorem Update_conflict_error_is_distinguished:
  "(\<forall>cs err. currentState w s = Inr cs \<longrightarrow>
        targetState w s cs (Content targetContent) = Inl err \<longrightarrow>
        UpdateStrategyDBMode_Update parseRaw toFailures w s targetContent
          = Returned (Some (ConfigConflictError err), [], []))
   \<and> (\<forall>err. currentState w s = Inl err \<longrightarrow>
        UpdateStrategyDBMode_Update parseRaw toFailures w s targetContent
          = Returned (Some (Plain (fmt_Errorf
              (''failed getting current state for '' @ BaseRootURL (client s) @ '': ''
                 @ Error_text err) [err])), [], []))
   \<and> (\<forall>cs ts err. currentState w s = Inr cs \<longrightarrow>
        targetState w s cs (Content targetContent) = Inr ts \<longrightarrow>
        diff_NewSyncer w
           \<lparr>CurrentState = cs, TargetState = ts, KongClient = client s,
            SilenceWarnings = True, IsKonnect = isKonnect s, IncludeLicenses = True,
            EnableEntityActions = True\<rparr> = Inl err \<longrightarrow>
        UpdateStrategyDBMode_Update parseRaw toFailures w s targetContent
          = Returned (Some (Plain (fmt_Errorf
              (''creating a new syncer for '' @ BaseRootURL (client s) @ '': ''
                 @ Error_text err) [err])), [], []))
   \<and> (\<forall>err e. ConfigConflictError err \<noteq> Plain e)"
  by (simp add: UpdateStrategyDBMode_Update_def)

theorem Update_conflict_error_is_distinguished_witness:
  "UpdateStrategyDBMode_Update parseRawResourceError
     resourceErrorsToResourceFailures
     \<lparr>dump_Get = (\<lambda>cl dc. Inr (KongRawState ''live'')),
      state_Get = (\<lambda>raw. Inr (KongState ''state'')),
      file_Get = (\<lambda>content rc dc cl. Inl (Opaque ''unknown service referenced'')),
      diff_NewSyncer = (\<lambda>opts. Inr (Syncer ''syncer'')),
      Solve = (\<lambda>syncer n. None),
      received = (\<lambda>syncer. [])\<rparr>
     (NewUpdateStrategyDBMode \<lparr>BaseRootURL = ''http://kong:8001''\<rparr> (dump_Config ''cfg'')
        (semver_Version ''3.4.0'') 10 None)
     \<lparr>Content = file_Content ''content'', Content_Hash = ''abc123''\<rparr>
     = Returned (Some (ConfigConflictError (Opaque ''unknown service referenced'')), [], [])
   \<and> UpdateStrategyDBMode_Update parseRawResourceError
     resourceErrorsToResourceFailures
     \<lparr>dump_Get = (\<lambda>cl dc. Inl (Opaque ''connection refused'')),
      state_Get = (\<lambda>raw. Inr (KongState ''state'')),
      file_Get = (\<lambda>content rc dc cl. Inr (KongRawState ''target'')),
      diff_NewSyncer = (\<lambda>opts. Inr (Syncer ''syncer'')),
      Solve = (\<lambda>syncer n. None),
      received = (\<lambda>syncer. [])\<rparr>
     (NewUpdateStrategyDBMode \<lparr>BaseRootURL = ''http://kong:8001''\<rparr> (dump_Config ''cfg'')
        (semver_Version ''3.4.0'') 10 None)
     \<lparr>Content = file_Content ''content'', Content_Hash = ''abc123''\<rparr>
     = Returned (Some (Plain (fmt_Errorf
         ''failed getting current state for http://kong:8001: loading configuration from kong: connection refused''
         [fmt_Errorf ''loading configuration from kong: connection refused''
            [Opaque ''connection refused'']])), [], [])
   \<and> UpdateStrategyDBMode_Update parseRawResourceError
     resourceErrorsToResourceFailures
     \<lparr>dump_Get = (\<lambda>cl dc. Inr (KongRawState ''live'')),
      state_Get = (\<lambda>raw. Inr (KongState ''state'')),
      file_Get = (\<lambda>content rc dc cl. Inr (KongRawState ''target'')),
      diff_NewSyncer = (\<lambda>opts. Inl (Opaque ''no client'')),
      Solve = (\<lambda>syncer n. None),
      received = (\<lambda>syncer. [])\<rparr>
     (NewUpdateStrategyDBMode \<lparr>BaseRootURL = ''http://kong:8001''\<rparr> (dump_Config ''cfg'')
        (semver_Version ''3.4.0'') 10 None)
     \<lparr>Content = file_Content ''content'', Content_Hash = ''abc123''\<rparr>
     = Returned (Some (Plain (fmt_Errorf
         ''creating a new syncer for http://kong:8001: no client'' [Opaque ''no client''])), [], [])"
  using Update_conflict_error_is_distinguished
    [of "\<lparr>dump_Get = (\<lambda>cl dc. Inr (KongRawState ''live'')),
          state_Get = (\<lambda>raw. Inr (KongState ''state'')),
          file_Get = (\<lambda>content rc dc cl. Inl (Opaque ''unknown service referenced'')),
          diff_NewSyncer = (\<lambda>opts. Inr (Syncer ''syncer'')),
          Solve = (\<lambda>syncer n. None),
          received = (\<lambda>syncer. [])\<rparr>"
        "NewUpdateStrategyDBMode \<lparr>BaseRootURL = ''http://kong:8001''\<rparr> (dump_Config ''cfg'')
           (semver_Version ''3.4.0'') 10 None"
        "\<lparr>Content = file_Content ''content'', Content_Hash = ''abc123''\<rparr>"
        parseRawResourceError resourceErrorsToResourceFailures]
    Update_conflict_error_is_distinguished
    [of "\<lparr>dump_Get = (\<lambda>cl dc. Inl (Opaque ''connection refused'')),
          state_Get = (\<lambda>raw. Inr (KongState ''state'')),
          file_Get = (\<lambda>content rc dc cl. Inr (KongRawState ''target'')),
          diff_NewSyncer = (\<lambda>opts. Inr (Syncer ''syncer'')),
          Solve = (\<lambda>syncer n. None),
          received = (\<lambda>syncer. [])\<rparr>"
        "NewUpdateStrategyDBMode \<lparr>BaseRootURL = ''http://kong:8001''\<rparr> (dump_Config ''cfg'')
           (semver_Version ''3.4.0'') 10 None"
        "\<lparr>Content = file_Content ''content'', Content_Hash = ''abc123''\<rparr>"
        parseRawResourceError resourceErrorsToResourceFailures]
    Update_conflict_error_is_distinguished
    [of "\<lparr>dump_Get = (\<lambda>cl dc. Inr (KongRawState ''live'')),
          state_Get = (\<lambda>raw. Inr (KongState ''state'')),
          file_Get = (\<lambda>content rc dc cl. Inr (KongRawState ''target'')),
          diff_NewSyncer = (\<lambda>opts. Inl (Opaque ''no client'')),
          Solve = (\<lambda>syncer n. None),
          received = (\<lambda>syncer. [])\<rparr>"
        "NewUpdateStrategyDBMode \<lparr>BaseRootURL = ''http://kong:8001''\<rparr> (dump_Config ''cfg'')
           (semver_Version ''3.4.0'') 10 None"
        "\<lparr>Content = file_Content ''content'', Content_Hash = ''abc123''\<rparr>"
        parseRawResourceError resourceErrorsToResourceFailures]
  by (simp add: currentState_def targetState_def NewUpdateStrategyDBMode_def)


text \<open>
  \<^verbatim>\<open>Update\<close> returns unless the classifier panics on an event with an error that the consumer
  receives.
\<close>

lemma HandleEvents_returns:
  assumes "\<forall>event \<in> set events. Error event \<noteq> None \<longrightarrow>
             (\<exists>res. resourceErrorFromEntityAction parseRaw event = Returned res)"
  shows "\<exists>sent lg. UpdateStrategyDBMode_HandleEvents parseRaw s events d hash =
           Returned (s\<lparr>resourceErrors := resourceErrors s @ spec_classified parseRaw events\<rparr>,
                     sent, lg)"
proof -
  from HandleEvents_loop_returns [OF assms]
  obtain s' diff' lg where
    loop: "HandleEvents_loop parseRaw s \<lparr>Hash = hash, Entities = []\<rparr> [] events
             = Returned (s', diff', lg)"
    by (metis prod_cases3)
  from HandleEvents_loop_Returned [OF loop]
  have "s' = s\<lparr>resourceErrors := resourceErrors s @ spec_classified parseRaw events\<rparr>"
    by simp
  with loop show ?thesis
    by (simp add: UpdateStrategyDBMode_HandleEvents_def)
qed

text \<open>
  Claim C3. In every diff-apply \<^verbatim>\<open>Update\<close> call that gets as far as the consumer, in which
  the classifier does not panic and the error slice of \<^verbatim>\<open>Solve\<close> is nil when it holds no
  error, \<^verbatim>\<open>Update\<close> returns, and what it returns is decided by the global errors, the
  elements of that slice, and the resource list, which is what
  \<^verbatim>\<open>resourceErrorsToResourceFailures\<close> hands on of the accumulated resource errors (those
  the strategy held, followed by those classified during the call): no global error and an
  empty resource list yield a nil error; no global error and a resource list that is not
  empty yield an \<^verbatim>\<open>UpdateError\<close> that wraps the resource list and the synthesized cause;
  some global errors yield an \<^verbatim>\<open>UpdateError\<close> that wraps the resource list and the global
  errors.
\<close>

theorem Update_aggregation:
  assumes "currentState w s = Inr cs"
    and "targetState w s cs (Content targetContent) = Inr ts"
    and "diff_NewSyncer w
           \<lparr>CurrentState = cs, TargetState = ts, KongClient = client s,
            SilenceWarnings = True, IsKonnect = isKonnect s, IncludeLicenses = True,
            EnableEntityActions = True\<rparr> = Inr syncer"
    and "\<forall>event \<in> set (received w syncer). Error event \<noteq> None \<longrightarrow>
           (\<exists>res. resourceErrorFromEntityAction parseRaw event = Returned res)"
    and "Solve w syncer (concurrency s) \<noteq> Some []"
    and "global = (case Solve w syncer (concurrency s) of None \<Rightarrow> [] | Some es \<Rightarrow> es)"
    and "failures = toFailures (resourceErrors s @ spec_classified parseRaw (received w syncer))"
  shows "(global = [] \<and> failures = [] \<longrightarrow>
            (\<exists>sent lg. UpdateStrategyDBMode_Update parseRaw toFailures w s targetContent
               = Returned (None, sent, lg)))
       \<and> (global = [] \<and> failures \<noteq> [] \<longrightarrow>
            (\<exists>sent lg. UpdateStrategyDBMode_Update parseRaw toFailures w s targetContent
               = Returned (Some (UpdateError failures
                   (Plain (errors_New ''go-database-reconciler found resource errors''))),
                   sent, lg)))
       \<and> (global \<noteq> [] \<longrightarrow>
            (\<exists>sent lg. UpdateStrategyDBMode_Update parseRaw toFailures w s targetContent
               = Returned (Some (UpdateError failures (ErrArray global)), sent, lg)))"
proof -
  from HandleEvents_returns [OF assms(4)]
  obtain sent lg where
    "UpdateStrategyDBMode_HandleEvents parseRaw s (received w syncer) (diagnostic s)
        (Content_Hash targetContent)
     = Returned (s\<lparr>resourceErrors :=
          resourceErrors s @ spec_classified parseRaw (received w syncer)\<rparr>, sent, lg)"
    by blast
  then have returned: "UpdateStrategyDBMode_Update parseRaw toFailures w s targetContent =
      Returned
        ((case Solve w syncer (concurrency s) of
            Some es \<Rightarrow> Some (UpdateError failures (ErrArray es))
          | None \<Rightarrow>
              if failures \<noteq> [] then
                Some (UpdateError failures
                  (Plain (errors_New ''go-database-reconciler found resource errors'')))
              else None),
         sent, lg)"
    by (simp add: Update_after_NewSyncer [OF assms(1-3)] assms(7) split: option.splits)
  show ?thesis
  proof (cases "Solve w syncer (concurrency s)")
    case None
    with assms(6) have "global = []" by simp
    with returned None show ?thesis by simp
  next
    case (Some es)
    with assms(5,6) have "global = es" and "es \<noteq> []" by simp_all
    with returned Some show ?thesis by simp
  qed
qed

theorem Update_aggregation_witness:
  "(\<exists>sent lg. UpdateStrategyDBMode_Update parseRawResourceError
     resourceErrorsToResourceFailures
     \<lparr>dump_Get = (\<lambda>cl dc. Inr (KongRawState ''live'')),
      state_Get = (\<lambda>raw. Inr (KongState ''state'')),
      file_Get = (\<lambda>content rc dc cl. Inr (KongRawState ''target'')),
      diff_NewSyncer = (\<lambda>opts. Inr (Syncer ''syncer'')),
      Solve = (\<lambda>syncer n. None),
      received = (\<lambda>syncer.
        [\<lparr>Action = ''create'',
          Entity = \<lparr>Name = ''svc-1'', Kind = ''service'', Old = Nil_any,
                    New = Ptr (Some (StructValue ''state.Service''
                      [(''Tags'', StringPtrs (Some [Some ''team-a'']))]))\<rparr>,
          Diff = ''+ svc-1'', Error = None\<rparr>])\<rparr>
     (NewUpdateStrategyDBMode \<lparr>BaseRootURL = ''http://kong:8001''\<rparr> (dump_Config ''cfg'')
        (semver_Version ''3.4.0'') 10 None)
     \<lparr>Content = file_Content ''content'', Content_Hash = ''abc123''\<rparr>
     = Returned (None, sent, lg))
   \<and> (\<exists>sent lg. UpdateStrategyDBMode_Update parseRawResourceError
     resourceErrorsToResourceFailures
     \<lparr>dump_Get = (\<lambda>cl dc. Inr (KongRawState ''live'')),
      state_Get = (\<lambda>raw. Inr (KongState ''state'')),
      file_Get = (\<lambda>content rc dc cl. Inr (KongRawState ''target'')),
      diff_NewSyncer = (\<lambda>opts. Inr (Syncer ''syncer'')),
      Solve = (\<lambda>syncer n. None),
      received = (\<lambda>syncer.
        [\<lparr>Action = ''create'',
          Entity = \<lparr>Name = ''svc-1'', Kind = ''service'', Old = Nil_any,
                    New = Ptr (Some (StructValue ''state.Service''
                      [(''Tags'', StringPtrs (Some [Some ''team-a'']))]))\<rparr>,
          Diff = '''', Error = Some (Opaque ''schema violation'')\<rparr>])\<rparr>
     (NewUpdateStrategyDBMode \<lparr>BaseRootURL = ''http://kong:8001''\<rparr> (dump_Config ''cfg'')
        (semver_Version ''3.4.0'') 10 None)
     \<lparr>Content = file_Content ''content'', Content_Hash = ''abc123''\<rparr>
     = Returned (Some (UpdateError
          [\<lparr>re_name = ''svc-1'', re_kind = '''', re_tags = [''team-a''],
            re_problems = ['''' \<mapsto> ''schema violation'']\<rparr>]
          (Plain (errors_New ''go-database-reconciler found resource errors''))), sent, lg))
   \<and> (\<exists>sent lg. UpdateStrategyDBMode_Update parseRawResourceError
     resourceErrorsToResourceFailures
     \<lparr>dump_Get = (\<lambda>cl dc. Inr (KongRawState ''live'')),
      state_Get = (\<lambda>raw. Inr (KongState ''state'')),
      file_Get = (\<lambda>content rc dc cl. Inr (KongRawState ''target'')),
      diff_NewSyncer = (\<lambda>opts. Inr (Syncer ''syncer'')),
      Solve = (\<lambda>syncer n. Some [Opaque ''1 errors occurred'']),
      received = (\<lambda>syncer.
        [\<lparr>Action = ''create'',
          Entity = \<lparr>Name = ''svc-1'', Kind = ''service'', Old = Nil_any,
                    New = Ptr (Some (StructValue ''state.Service''
                      [(''Tags'', StringPtrs (Some [Some ''team-a'']))]))\<rparr>,
          Diff = '''', Error = Some (Opaque ''schema violation'')\<rparr>])\<rparr>
     (NewUpdateStrategyDBMode \<lparr>BaseRootURL = ''http://kong:8001''\<rparr> (dump_Config ''cfg'')
        (semver_Version ''3.4.0'') 10 None)
     \<lparr>Content = file_Content ''content'', Content_Hash = ''abc123''\<rparr>
     = Returned (Some (UpdateError
          [\<lparr>re_name = ''svc-1'', re_kind = '''', re_tags = [''team-a''],
            re_problems = ['''' \<mapsto> ''schema violation'']\<rparr>]
          (ErrArray [Opaque ''1 errors occurred''])), sent, lg))"
  using Update_aggregation
    [of "\<lparr>dump_Get = (\<lambda>cl dc. Inr (KongRawState ''live'')),
          state_Get = (\<lambda>raw. Inr (KongState ''state'')),
          file_Get = (\<lambda>content rc dc cl. Inr (KongRawState ''target'')),
          diff_NewSyncer = (\<lambda>opts. Inr (Syncer ''syncer'')),
          Solve = (\<lambda>syncer n. None),
          received = (\<lambda>syncer.
            [\<lparr>Action = ''create'',
              Entity = \<lparr>Name = ''svc-1'', Kind = ''service'', Old = Nil_any,
                        New = Ptr (Some (StructValue ''state.Service''
                          [(''Tags'', StringPtrs (Some [Some ''team-a'']))]))\<rparr>,
              Diff = ''+ svc-1'', Error = None\<rparr>])\<rparr>"
        "NewUpdateStrategyDBMode \<lparr>BaseRootURL = ''http://kong:8001''\<rparr> (dump_Config ''cfg'')
           (semver_Version ''3.4.0'') 10 None"
        "KongState ''state''"
        "\<lparr>Content = file_Content ''content'', Content_Hash = ''abc123''\<rparr>"
        "KongState ''state''" "Syncer ''syncer''" parseRawResourceError "[]" "[]"
        resourceErrorsToResourceFailures]
    Update_aggregation
    [of "\<lparr>dump_Get = (\<lambda>cl dc. Inr (KongRawState ''live'')),
          state_Get = (\<lambda>raw. Inr (KongState ''state'')),
          file_Get = (\<lambda>content rc dc cl. Inr (KongRawState ''target'')),
          diff_NewSyncer = (\<lambda>opts. Inr (Syncer ''syncer'')),
          Solve = (\<lambda>syncer n. None),
          received = (\<lambda>syncer.
            [\<lparr>Action = ''create'',
              Entity = \<lparr>Name = ''svc-1'', Kind = ''service'', Old = Nil_any,
                        New = Ptr (Some (StructValue ''state.Service''
                          [(''Tags'', StringPtrs (Some [Some ''team-a'']))]))\<rparr>,
              Diff = '''', Error = Some (Opaque ''schema violation'')\<rparr>])\<rparr>"
        "NewUpdateStrategyDBMode \<lparr>BaseRootURL = ''http://kong:8001''\<rparr> (dump_Config ''cfg'')
           (semver_Version ''3.4.0'') 10 None"
        "KongState ''state''"
        "\<lparr>Content = file_Content ''content'', Content_Hash = ''abc123''\<rparr>"
        "KongState ''state''" "Syncer ''syncer''" parseRawResourceError "[]"
        "[\<lparr>re_name = ''svc-1'', re_kind = '''', re_tags = [''team-a''],
            re_problems = ['''' \<mapsto> ''schema violation'']\<rparr>]"
        resourceErrorsToResourceFailures]
    Update_aggregation
    [of "\<lparr>dump_Get = (\<lambda>cl dc. Inr (KongRawState ''live'')),
          state_Get = (\<lambda>raw. Inr (KongState ''state'')),
          file_Get = (\<lambda>content rc dc cl. Inr (KongRawState ''target'')),
          diff_NewSyncer = (\<lambda>opts. Inr (Syncer ''syncer'')),
          Solve = (\<lambda>syncer n. Some [Opaque ''1 errors occurred'']),
          received = (\<lambda>syncer.
            [\<lparr>Action = ''create'',
              Entity = \<lparr>Name = ''svc-1'', Kind = ''service'', Old = Nil_any,
                        New = Ptr (Some (StructValue ''state.Service''
                          [(''Tags'', StringPtrs (Some [Some ''team-a'']))]))\<rparr>,
              Diff = '''', Error = Some (Opaque ''schema violation'')\<rparr>])\<rparr>"
        "NewUpdateStrategyDBMode \<lparr>BaseRootURL = ''http://kong:8001''\<rparr> (dump_Config ''cfg'')
           (semver_Version ''3.4.0'') 10 None"
        "KongState ''state''"
        "\<lparr>Content = file_Content ''content'', Content_Hash = ''abc123''\<rparr>"
        "KongState ''state''" "Syncer ''syncer''" parseRawResourceError
        "[Opaque ''1 errors occurred'']"
        "[\<lparr>re_name = ''svc-1'', re_kind = '''', re_tags = [''team-a''],
            re_problems = ['''' \<mapsto> ''schema violation'']\<rparr>]"
        resourceErrorsToResourceFailures]
  by (simp add: currentState_def targetState_def NewUpdateStrategyDBMode_def
        spec_classified_def resourceErrorFromEntityAction_def parseRawResourceError_def
        resourceErrorsToResourceFailures_def)

text \<open>
  \<^verbatim>\<open>Update\<close> tests \<^verbatim>\<open>errs != nil\<close>, not the length of the slice. The two differ on a slice
  that is empty and not nil, which nothing in this package shows \<^verbatim>\<open>Solve\<close> to return; on
  it \<^verbatim>\<open>Update\<close> returns an \<^verbatim>\<open>UpdateError\<close> that holds no error.
\<close>

lemma Update_on_empty_error_slice:
  "UpdateStrategyDBMode_Update parseRawResourceError
     resourceErrorsToResourceFailures
     \<lparr>dump_Get = (\<lambda>cl dc. Inr (KongRawState ''live'')),
      state_Get = (\<lambda>raw. Inr (KongState ''state'')),
      file_Get = (\<lambda>content rc dc cl. Inr (KongRawState ''target'')),
      diff_NewSyncer = (\<lambda>opts. Inr (Syncer ''syncer'')),
      Solve = (\<lambda>syncer n. Some []),
      received = (\<lambda>syncer. [])\<rparr>
     (NewUpdateStrategyDBMode \<lparr>BaseRootURL = ''http://kong:8001''\<rparr> (dump_Config ''cfg'')
        (semver_Version ''3.4.0'') 10 None)
     \<lparr>Content = file_Content ''content'', Content_Hash = ''abc123''\<rparr>
   = Returned (Some (UpdateError [] (ErrArray [])), [], [])"
  by (simp add: UpdateStrategyDBMode_Update_def currentState_def targetState_def
        NewUpdateStrategyDBMode_def UpdateStrategyDBMode_HandleEvents_def
        resourceErrorsToResourceFailures_def NewUpdateError_def)


text \<open>
  What \<^verbatim>\<open>Update\<close> sends to the diagnostics sink: nothing when it returns before the consumer
  is started, and what the consumer sends otherwise.
\<close>

lemma Update_sent:
  assumes "UpdateStrategyDBMode_Update parseRaw toFailures w s targetContent
             = Returned (err, sent, lg)"
  shows "sent = [] \<or>
         (\<exists>cs ts syncer s'.
            currentState w s = Inr cs \<and>
            targetState w s cs (Content targetContent) = Inr ts \<and>
            diff_NewSyncer w
              \<lparr>CurrentState = cs, TargetState = ts, KongClient = client s,
               SilenceWarnings = True, IsKonnect = isKonnect s, IncludeLicenses = True,
               EnableEntityActions = True\<rparr> = Inr syncer \<and>
            UpdateStrategyDBMode_HandleEvents parseRaw s (received w syncer) (diagnostic s)
              (Content_Hash targetContent) = Returned (s', sent, lg))"
  using assms
  by (auto simp: UpdateStrategyDBMode_Update_def Let_def
           split: sum.splits outcome.splits option.splits if_splits)

text \<open>
  With the two goroutines put in sequence, a run that returns has sent at most one record
  to the diagnostics sink, and only when the strategy holds a sink; when the run gets as
  far as the consumer and the strategy holds a sink, the record is the hash with the diffs
  of the events without an error. The executions step by step are in the last section.
\<close>

lemma Update_sends_at_most_once:
  assumes "UpdateStrategyDBMode_Update parseRaw toFailures w s targetContent
             = Returned (err, sent, lg)"
  shows "length sent \<le> 1
       \<and> (sent \<noteq> [] \<longrightarrow> diagnostic s \<noteq> None)
       \<and> (\<forall>cs ts syncer.
            currentState w s = Inr cs \<longrightarrow>
            targetState w s cs (Content targetContent) = Inr ts \<longrightarrow>
            diff_NewSyncer w
              \<lparr>CurrentState = cs, TargetState = ts, KongClient = client s,
               SilenceWarnings = True, IsKonnect = isKonnect s, IncludeLicenses = True,
               EnableEntityActions = True\<rparr> = Inr syncer \<longrightarrow>
            sent = (if diagnostic s \<noteq> None
                    then [\<lparr>Hash = Content_Hash targetContent,
                           Entities = spec_error_free (received w syncer)\<rparr>]
                    else []))"
proof -
  from Update_sent [OF assms] show ?thesis
  proof
    assume no_record: "sent = []"
    have "diagnostic s = None"
      if started: "currentState w s = Inr cs"
        "targetState w s cs (Content targetContent) = Inr ts"
        "diff_NewSyncer w
           \<lparr>CurrentState = cs, TargetState = ts, KongClient = client s,
            SilenceWarnings = True, IsKonnect = isKonnect s, IncludeLicenses = True,
            EnableEntityActions = True\<rparr> = Inr syncer"
      for cs ts syncer
    proof -
      from assms obtain s' where
        "UpdateStrategyDBMode_HandleEvents parseRaw s (received w syncer)
           (diagnostic s) (Content_Hash targetContent) = Returned (s', sent, lg)"
        by (auto simp: Update_after_NewSyncer [OF started] split: outcome.splits)
      from HandleEvents_Returned(2) [OF this]
      have "sent = (if diagnostic s \<noteq> None
                    then [\<lparr>Hash = Content_Hash targetContent,
                           Entities = spec_error_free (received w syncer)\<rparr>]
                    else [])" .
      with no_record show ?thesis by (simp split: if_splits)
    qed
    with no_record show ?thesis by auto
  next
    assume "\<exists>cs ts syncer s'.
            currentState w s = Inr cs \<and>
            targetState w s cs (Content targetContent) = Inr ts \<and>
            diff_NewSyncer w
              \<lparr>CurrentState = cs, TargetState = ts, KongClient = client s,
               SilenceWarnings = True, IsKonnect = isKonnect s, IncludeLicenses = True,
               EnableEntityActions = True\<rparr> = Inr syncer \<and>
            UpdateStrategyDBMode_HandleEvents parseRaw s (received w syncer) (diagnostic s)
              (Content_Hash targetContent) = Returned (s', sent, lg)"
    then obtain cs ts syncer s' where
      prefix: "currentState w s = Inr cs"
        "targetState w s cs (Content targetContent) = Inr ts"
        "diff_NewSyncer w
           \<lparr>CurrentState = cs, TargetState = ts, KongClient = client s,
            SilenceWarnings = True, IsKonnect = isKonnect s, IncludeLicenses = True,
            EnableEntityActions = True\<rparr> = Inr syncer"
      and consumer: "UpdateStrategyDBMode_HandleEvents parseRaw s (received w syncer)
           (diagnostic s) (Content_Hash targetContent) = Returned (s', sent, lg)"
      by blast
    from HandleEvents_Returned(2) [OF consumer]
    have sent: "sent = (if diagnostic s \<noteq> None
                    then [\<lparr>Hash = Content_Hash targetContent,
                           Entities = spec_error_free (received w syncer)\<rparr>]
                    else [])" .
    with prefix show ?thesis by auto
  qed
qed

text \<open>
  \<^verbatim>\<open>NewUpdateStrategyDBModeKonnect\<close> hands on the \<^verbatim>\<open>diagnostic\<close> it is given. That none is
  given for Konnect is the part of its caller, as the comment in \<^verbatim>\<open>HandleEvents\<close> has it:
  \<^emph>\<open>In the Konnect case, we don't actually want to collect diffs, and don't actually provide
  a diagnostic when setting it up.\<close>
\<close>

lemma NewUpdateStrategyDBModeKonnect_diagnostic:
  "diagnostic (NewUpdateStrategyDBModeKonnect cl dc v n d) = d
   \<and> isKonnect (NewUpdateStrategyDBModeKonnect cl dc v n d)
   \<and> \<not> isKonnect (NewUpdateStrategyDBMode cl dc v n d)"
  by (simp add: NewUpdateStrategyDBModeKonnect_def NewUpdateStrategyDBMode_def)


text \<open>
  Claim C8, as amended. \<^verbatim>\<open>Update\<close> does not reset the resource-error list of the strategy:
  what the strategy holds when \<^verbatim>\<open>Update\<close> is called is reported by the call, followed by
  the errors classified during the call. But the consumer appends to the call's own copy of
  the strategy, so for every two successive \<^verbatim>\<open>Update\<close> calls on the same strategy, the
  second call reports the list the strategy holds followed by the errors classified during
  the second call, and none of the errors accumulated during the first call: with the
  resource failures that \<^verbatim>\<open>resourceErrorsToResourceFailures\<close> makes of these it returns
  either nil, when there are none and \<^verbatim>\<open>Solve\<close> returned a nil slice, or an
  \<^verbatim>\<open>UpdateError\<close> that wraps exactly them.
\<close>

theorem second_Update_reports_its_own_errors:
  assumes "two_Updates parseRaw toFailures s w1 target1 w2 target2
             = Returned ((err1, sent1, lg1), (err2, sent2, lg2))"
    and "currentState w2 s = Inr cs"
    and "targetState w2 s cs (Content target2) = Inr ts"
    and "diff_NewSyncer w2
           \<lparr>CurrentState = cs, TargetState = ts, KongClient = client s,
            SilenceWarnings = True, IsKonnect = isKonnect s, IncludeLicenses = True,
            EnableEntityActions = True\<rparr> = Inr syncer"
    and "reported =
           toFailures (resourceErrors s @ spec_classified parseRaw (received w2 syncer))"
  shows "(err2 = None \<and> reported = []) \<or> (\<exists>cause. err2 = Some (UpdateError reported cause))"
proof -
  from assms(1)
  have second: "UpdateStrategyDBMode_Update parseRaw toFailures w2 s target2
                  = Returned (err2, sent2, lg2)"
    by (simp add: two_Updates_def split: outcome.splits)
  then obtain s' where
    consumer: "UpdateStrategyDBMode_HandleEvents parseRaw s (received w2 syncer) (diagnostic s)
        (Content_Hash target2) = Returned (s', sent2, lg2)"
    and err2: "err2 =
        (case Solve w2 syncer (concurrency s) of
           Some es \<Rightarrow> Some (UpdateError (toFailures (resourceErrors s')) (ErrArray es))
         | None \<Rightarrow>
             if toFailures (resourceErrors s') \<noteq> [] then
               Some (UpdateError (toFailures (resourceErrors s'))
                 (Plain (errors_New ''go-database-reconciler found resource errors'')))
             else None)"
    by (auto simp: Update_after_NewSyncer [OF assms(2-4)] split: outcome.splits)
  from HandleEvents_Returned(1) [OF consumer] assms(5)
  have "toFailures (resourceErrors s') = reported" by simp
  with err2 show ?thesis
    by (auto split: option.splits)
qed

theorem second_Update_reports_its_own_errors_witness:
  "two_Updates parseRawResourceError resourceErrorsToResourceFailures
     (NewUpdateStrategyDBMode \<lparr>BaseRootURL = ''http://kong:8001''\<rparr> (dump_Config ''cfg'')
        (semver_Version ''3.4.0'') 10 None)
     \<lparr>dump_Get = (\<lambda>cl dc. Inr (KongRawState ''live'')),
      state_Get = (\<lambda>raw. Inr (KongState ''state'')),
      file_Get = (\<lambda>content rc dc cl. Inr (KongRawState ''target'')),
      diff_NewSyncer = (\<lambda>opts. Inr (Syncer ''syncer'')),
      Solve = (\<lambda>syncer n. Some [Opaque ''1 errors occurred'']),
      received = (\<lambda>syncer.
        [\<lparr>Action = ''create'',
          Entity = \<lparr>Name = ''svc-1'', Kind = ''service'', Old = Nil_any,
                    New = Ptr (Some (StructValue ''state.Service''
                      [(''Tags'', StringPtrs (Some [Some ''team-a'']))]))\<rparr>,
          Diff = '''', Error = Some (Opaque ''schema violation'')\<rparr>])\<rparr>
     \<lparr>Content = file_Content ''first'', Content_Hash = ''abc123''\<rparr>
     \<lparr>dump_Get = (\<lambda>cl dc. Inr (KongRawState ''live'')),
      state_Get = (\<lambda>raw. Inr (KongState ''state'')),
      file_Get = (\<lambda>content rc dc cl. Inr (KongRawState ''target'')),
      diff_NewSyncer = (\<lambda>opts. Inr (Syncer ''syncer'')),
      Solve = (\<lambda>syncer n. Some [Opaque ''1 errors occurred'']),
      received = (\<lambda>syncer.
        [\<lparr>Action = ''create'',
          Entity = \<lparr>Name = ''svc-2'', Kind = ''service'', Old = Nil_any,
                    New = Ptr (Some (StructValue ''state.Service''
                      [(''Tags'', StringPtrs (Some [Some ''team-b'']))]))\<rparr>,
          Diff = '''', Error = Some (Opaque ''name conflict'')\<rparr>])\<rparr>
     \<lparr>Content = file_Content ''second'', Content_Hash = ''def456''\<rparr>
   = Returned
       ((Some (UpdateError
           [\<lparr>re_name = ''svc-1'', re_kind = '''', re_tags = [''team-a''],
             re_problems = ['''' \<mapsto> ''schema violation'']\<rparr>]
           (ErrArray [Opaque ''1 errors occurred''])),
         [],
         [log_Error (Some (Opaque ''schema violation'')) ''failed updating gateway entity''
            [(''action'', ''create''), (''kind'', ''service''), (''name'', ''svc-1'')]]),
        (Some (UpdateError
           [\<lparr>re_name = ''svc-2'', re_kind = '''', re_tags = [''team-b''],
             re_problems = ['''' \<mapsto> ''name conflict'']\<rparr>]
           (ErrArray [Opaque ''1 errors occurred''])),
         [],
         [log_Error (Some (Opaque ''name conflict'')) ''failed updating gateway entity''
            [(''action'', ''create''), (''kind'', ''service''), (''name'', ''svc-2'')]]))"
  using second_Update_reports_its_own_errors
    [of parseRawResourceError resourceErrorsToResourceFailures
        "NewUpdateStrategyDBMode \<lparr>BaseRootURL = ''http://kong:8001''\<rparr> (dump_Config ''cfg'')
           (semver_Version ''3.4.0'') 10 None"
        "\<lparr>dump_Get = (\<lambda>cl dc. Inr (KongRawState ''live'')),
          state_Get = (\<lambda>raw. Inr (KongState ''state'')),
          file_Get = (\<lambda>content rc dc cl. Inr (KongRawState ''target'')),
          diff_NewSyncer = (\<lambda>opts. Inr (Syncer ''syncer'')),
          Solve = (\<lambda>syncer n. Some [Opaque ''1 errors occurred'']),
          received = (\<lambda>syncer.
            [\<lparr>Action = ''create'',
              Entity = \<lparr>Name = ''svc-1'', Kind = ''service'', Old = Nil_any,
                        New = Ptr (Some (StructValue ''state.Service''
                          [(''Tags'', StringPtrs (Some [Some ''team-a'']))]))\<rparr>,
              Diff = '''', Error = Some (Opaque ''schema violation'')\<rparr>])\<rparr>"
        "\<lparr>Content = file_Content ''first'', Content_Hash = ''abc123''\<rparr>"
        "\<lparr>dump_Get = (\<lambda>cl dc. Inr (KongRawState ''live'')),
          state_Get = (\<lambda>raw. Inr (KongState ''state'')),
          file_Get = (\<lambda>content rc dc cl. Inr (KongRawState ''target'')),
          diff_NewSyncer = (\<lambda>opts. Inr (Syncer ''syncer'')),
          Solve = (\<lambda>syncer n. Some [Opaque ''1 errors occurred'']),
          received = (\<lambda>syncer.
            [\<lparr>Action = ''create'',
              Entity = \<lparr>Name = ''svc-2'', Kind = ''service'', Old = Nil_any,
                        New = Ptr (Some (StructValue ''state.Service''
                          [(''Tags'', StringPtrs (Some [Some ''team-b'']))]))\<rparr>,
              Diff = '''', Error = Some (Opaque ''name conflict'')\<rparr>])\<rparr>"
        "\<lparr>Content = file_Content ''second'', Content_Hash = ''def456''\<rparr>"
        "Some (UpdateError
           [\<lparr>re_name = ''svc-1'', re_kind = '''', re_tags = [''team-a''],
             re_problems = ['''' \<mapsto> ''schema violation'']\<rparr>]
           (ErrArray [Opaque ''1 errors occurred'']))"
        "[]"
        "[log_Error (Some (Opaque ''schema violation'')) ''failed updating gateway entity''
            [(''action'', ''create''), (''kind'', ''service''), (''name'', ''svc-1'')]]"
        "Some (UpdateError
           [\<lparr>re_name = ''svc-2'', re_kind = '''', re_tags = [''team-b''],
             re_problems = ['''' \<mapsto> ''name conflict'']\<rparr>]
           (ErrArray [Opaque ''1 errors occurred'']))"
        "[]"
        "[log_Error (Some (Opaque ''name conflict'')) ''failed updating gateway entity''
            [(''action'', ''create''), (''kind'', ''service''), (''name'', ''svc-2'')]]"
        "KongState ''state''" "KongState ''state''" "Syncer ''syncer''"
        "[\<lparr>re_name = ''svc-2'', re_kind = '''', re_tags = [''team-b''],
             re_problems = ['''' \<mapsto> ''name conflict'']\<rparr>]"]
  by (simp add: two_Updates_def UpdateStrategyDBMode_Update_def currentState_def
        targetState_def NewUpdateStrategyDBMode_def UpdateStrategyDBMode_HandleEvents_def
        resourceErrorsToResourceFailures_def NewUpdateError_def
        resourceErrorFromEntityAction_def parseRawResourceError_def)

text \<open>
  Two successive calls on a strategy built by \<^verbatim>\<open>NewUpdateStrategyDBMode\<close>. During the first
  call the update of \<^verbatim>\<open>svc-1\<close> fails and is classified, and the call reports it. During
  the second call nothing fails, and the call returns nil: the resource error of the first
  call is not present in the second.
\<close>

theorem second_Update_counterexample:
  "two_Updates parseRawResourceError resourceErrorsToResourceFailures
     (NewUpdateStrategyDBMode \<lparr>BaseRootURL = ''http://kong:8001''\<rparr> (dump_Config ''cfg'')
        (semver_Version ''3.4.0'') 10 None)
     \<lparr>dump_Get = (\<lambda>cl dc. Inr (KongRawState ''live'')),
      state_Get = (\<lambda>raw. Inr (KongState ''state'')),
      file_Get = (\<lambda>content rc dc cl. Inr (KongRawState ''target'')),
      diff_NewSyncer = (\<lambda>opts. Inr (Syncer ''syncer'')),
      Solve = (\<lambda>syncer n. Some [Opaque ''1 errors occurred'']),
      received = (\<lambda>syncer.
        [\<lparr>Action = ''create'',
          Entity = \<lparr>Name = ''svc-1'', Kind = ''service'', Old = Nil_any,
                    New = Ptr (Some (StructValue ''state.Service''
                      [(''Tags'', StringPtrs (Some [Some ''team-a'']))]))\<rparr>,
          Diff = '''', Error = Some (Opaque ''schema violation'')\<rparr>])\<rparr>
     \<lparr>Content = file_Content ''first'', Content_Hash = ''abc123''\<rparr>
     \<lparr>dump_Get = (\<lambda>cl dc. Inr (KongRawState ''live'')),
      state_Get = (\<lambda>raw. Inr (KongState ''state'')),
      file_Get = (\<lambda>content rc dc cl. Inr (KongRawState ''target'')),
      diff_NewSyncer = (\<lambda>opts. Inr (Syncer ''syncer'')),
      Solve = (\<lambda>syncer n. None),
      received = (\<lambda>syncer. [])\<rparr>
     \<lparr>Content = file_Content ''second'', Content_Hash = ''def456''\<rparr>
   = Returned
       ((Some (UpdateError
           [\<lparr>re_name = ''svc-1'', re_kind = '''', re_tags = [''team-a''],
             re_problems = ['''' \<mapsto> ''schema violation'']\<rparr>]
           (ErrArray [Opaque ''1 errors occurred''])),
         [],
         [log_Error (Some (Opaque ''schema violation'')) ''failed updating gateway entity''
            [(''action'', ''create''), (''kind'', ''service''), (''name'', ''svc-1'')]]),
        (None, [], []))"
  by (simp add: two_Updates_def UpdateStrategyDBMode_Update_def currentState_def
        targetState_def NewUpdateStrategyDBMode_def UpdateStrategyDBMode_HandleEvents_def
        resourceErrorsToResourceFailures_def NewUpdateError_def
        resourceErrorFromEntityAction_def parseRawResourceError_def)


section \<open>What the consumer has collected when it returns\<close>

text \<open>
  The consumer taken by itself, on the events it receives before cancellation: unless the
  classifier panics it returns, the record it sends to the sink (when there is one) holds
  exactly the diffs of the events without an error in the order of arrival, and the
  resource errors of the strategy it was called on have grown by exactly the records of the
  events whose classification returned one, in the order of arrival. How the goroutines
  interleave, and whether events are still in the channel when the consumer takes the
  branch \<^verbatim>\<open>ctx.Done()\<close>, is the matter of the next section.
\<close>

lemma HandleEvents_collects:
  assumes "\<forall>event \<in> set events. Error event \<noteq> None \<longrightarrow>
             (\<exists>res. resourceErrorFromEntityAction parseRaw event = Returned res)"
  shows "\<exists>lg. UpdateStrategyDBMode_HandleEvents parseRaw s events d hash =
           Returned (s\<lparr>resourceErrors := resourceErrors s @ spec_classified parseRaw events\<rparr>,
                     (if d \<noteq> None then [\<lparr>Hash = hash, Entities = spec_error_free events\<rparr>]
                      else []),
                     lg)"
proof -
  from HandleEvents_returns [OF assms]
  obtain sent lg where
    returned: "UpdateStrategyDBMode_HandleEvents parseRaw s events d hash =
       Returned (s\<lparr>resourceErrors := resourceErrors s @ spec_classified parseRaw events\<rparr>,
                 sent, lg)"
    by blast
  from HandleEvents_Returned(2) [OF returned] returned show ?thesis by blast
qed

section \<open>Properties of the two goroutines\<close>

lemma steps_refl: "steps parseRaw capacity r r"
  by (simp add: steps_def)

lemma steps_step:
  "step parseRaw capacity r r' \<Longrightarrow> steps parseRaw capacity r' r'' \<Longrightarrow>
   steps parseRaw capacity r r''"
  by (simp add: steps_def)

text \<open>
  Claim C7 says that, however the producer and the consumer interleave, the consumer has
  drained the event stream and flushed its diagnostics buffer before \<^verbatim>\<open>Update\<close> reads the
  shared \<^verbatim>\<open>resourceErrors\<close>, and that this is enforced by an explicit cancel-then-wait
  sequence, not by timing. The wait of \<^verbatim>\<open>Update\<close> is \<^verbatim>\<open>s.resourceErrorLock.Lock()\<close>, which
  waits for the consumer only if the consumer has taken the mutex already. In the execution
  below \<^verbatim>\<open>Solve\<close> has no event to send; \<^verbatim>\<open>Update\<close> cancels, finds the mutex free, reads
  and returns while the consumer has not yet run its first statement: nothing has been
  flushed when \<^verbatim>\<open>Update\<close> reads, whatever the capacity of the channel.
\<close>

theorem Update_reads_before_HandleEvents_flushes:
  "steps parseRaw capacity
     (Running (initial
        (NewUpdateStrategyDBMode \<lparr>BaseRootURL = ''http://kong:8001''\<rparr> (dump_Config ''cfg'')
           (semver_Version ''3.4.0'') 10 (Some (ClientDiagnostic ''diagnostics'')))
        [] ''abc123''))
     (Running
        \<lparr>unsent = [], channel = [], ctx_Done = True, resourceErrorLock = False,
         Update_at = Update_returned, HandleEvents_at = at_HandleEvents_Lock,
         s_copy = NewUpdateStrategyDBMode \<lparr>BaseRootURL = ''http://kong:8001''\<rparr>
           (dump_Config ''cfg'') (semver_Version ''3.4.0'') 10
           (Some (ClientDiagnostic ''diagnostics'')),
         diff_local = \<lparr>Hash = ''abc123'', Entities = []\<rparr>, Diffs_sent = [], logged = [],
         Update_read = Some []\<rparr>)"
proof -
  let ?s = "NewUpdateStrategyDBMode \<lparr>BaseRootURL = ''http://kong:8001''\<rparr> (dump_Config ''cfg'')
           (semver_Version ''3.4.0'') 10 (Some (ClientDiagnostic ''diagnostics''))"
  let ?c0 = "initial ?s [] ''abc123''"
  let ?c1 = "?c0\<lparr>Update_at := at_cancel\<rparr>"
  let ?c2 = "?c1\<lparr>ctx_Done := True, Update_at := at_Lock\<rparr>"
  let ?c3 = "?c2\<lparr>resourceErrorLock := True, Update_at := at_read\<rparr>"
  let ?c4 = "?c3\<lparr>Update_read := Some (resourceErrors (s_copy ?c3)),
                  resourceErrorLock := False, Update_at := Update_returned\<rparr>"
  have "step parseRaw capacity (Running ?c0) (Running ?c1)"
    by (rule Solve_returns) (simp_all add: initial_def)
  moreover have "step parseRaw capacity (Running ?c1) (Running ?c2)"
    by (rule cancel) simp
  moreover have "step parseRaw capacity (Running ?c2) (Running ?c3)"
    by (rule Update_locks) (simp_all add: initial_def)
  moreover have "step parseRaw capacity (Running ?c3) (Running ?c4)"
    by (rule Update_reads) simp
  ultimately have "steps parseRaw capacity (Running ?c0) (Running ?c4)"
    by (blast intro: steps_step steps_refl)
  moreover have "?c4 =
        \<lparr>unsent = [], channel = [], ctx_Done = True, resourceErrorLock = False,
         Update_at = Update_returned, HandleEvents_at = at_HandleEvents_Lock,
         s_copy = ?s,
         diff_local = \<lparr>Hash = ''abc123'', Entities = []\<rparr>, Diffs_sent = [], logged = [],
         Update_read = Some []\<rparr>"
    by (simp add: initial_def NewUpdateStrategyDBMode_def)
  ultimately show ?thesis by simp
qed




text \<open>
  With a channel that holds one event, the consumer may take the mutex first and still
  leave an event unread: once the context is cancelled its \<^verbatim>\<open>select\<close> may take the branch
  \<^verbatim>\<open>ctx.Done()\<close> while the failed update of \<^verbatim>\<open>svc-1\<close> is in the channel. \<^verbatim>\<open>Update\<close> then reads
  no resource error.
\<close>

lemma select_may_leave_an_event_unread:
  "steps parseRaw 1
     (Running (initial
        (NewUpdateStrategyDBMode \<lparr>BaseRootURL = ''http://kong:8001''\<rparr> (dump_Config ''cfg'')
           (semver_Version ''3.4.0'') 10 None)
        [\<lparr>Action = ''create'',
          Entity = \<lparr>Name = ''svc-1'', Kind = ''service'', Old = Nil_any,
                    New = Ptr (Some (StructValue ''state.Service''
                      [(''Tags'', StringPtrs (Some [Some ''team-a'']))]))\<rparr>,
          Diff = '''', Error = Some (Opaque ''schema violation'')\<rparr>]
        ''abc123''))
     (Running
        \<lparr>unsent = [],
         channel =
           [\<lparr>Action = ''create'',
             Entity = \<lparr>Name = ''svc-1'', Kind = ''service'', Old = Nil_any,
                       New = Ptr (Some (StructValue ''state.Service''
                         [(''Tags'', StringPtrs (Some [Some ''team-a'']))]))\<rparr>,
             Diff = '''', Error = Some (Opaque ''schema violation'')\<rparr>],
         ctx_Done = True, resourceErrorLock = False,
         Update_at = Update_returned, HandleEvents_at = HandleEvents_returned,
         s_copy = NewUpdateStrategyDBMode \<lparr>BaseRootURL = ''http://kong:8001''\<rparr>
           (dump_Config ''cfg'') (semver_Version ''3.4.0'') 10 None,
         diff_local = \<lparr>Hash = ''abc123'', Entities = []\<rparr>, Diffs_sent = [], logged = [],
         Update_read = Some []\<rparr>)"
proof -
  let ?s = "NewUpdateStrategyDBMode \<lparr>BaseRootURL = ''http://kong:8001''\<rparr> (dump_Config ''cfg'')
           (semver_Version ''3.4.0'') 10 None"
  let ?event = "\<lparr>Action = ''create'',
          Entity = \<lparr>Name = ''svc-1'', Kind = ''service'', Old = Nil_any,
                    New = Ptr (Some (StructValue ''state.Service''
                      [(''Tags'', StringPtrs (Some [Some ''team-a'']))]))\<rparr>,
          Diff = '''', Error = Some (Opaque ''schema violation'')\<rparr>"
  let ?c0 = "initial ?s [?event] ''abc123''"
  let ?c1 = "?c0\<lparr>resourceErrorLock := True, HandleEvents_at := at_select\<rparr>"
  let ?c2 = "?c1\<lparr>unsent := [], channel := channel ?c1 @ [?event]\<rparr>"
  let ?c3 = "?c2\<lparr>Update_at := at_cancel\<rparr>"
  let ?c4 = "?c3\<lparr>ctx_Done := True, Update_at := at_Lock\<rparr>"
  let ?c5 = "?c4\<lparr>Diffs_sent := Diffs_sent ?c4 @
                     (if diagnostic (s_copy ?c4) \<noteq> None then [diff_local ?c4] else []),
                  resourceErrorLock := False, HandleEvents_at := HandleEvents_returned\<rparr>"
  let ?c6 = "?c5\<lparr>resourceErrorLock := True, Update_at := at_read\<rparr>"
  let ?c7 = "?c6\<lparr>Update_read := Some (resourceErrors (s_copy ?c6)),
                  resourceErrorLock := False, Update_at := Update_returned\<rparr>"
  have "step parseRaw 1 (Running ?c0) (Running ?c1)"
    by (rule HandleEvents_locks) (simp_all add: initial_def)
  moreover have "step parseRaw 1 (Running ?c1) (Running ?c2)"
    by (rule Solve_sends) (simp_all add: initial_def)
  moreover have "step parseRaw 1 (Running ?c2) (Running ?c3)"
    by (rule Solve_returns) (simp_all add: initial_def)
  moreover have "step parseRaw 1 (Running ?c3) (Running ?c4)"
    by (rule cancel) (simp add: initial_def)
  moreover have "step parseRaw 1 (Running ?c4) (Running ?c5)"
    by (rule Done) simp_all
  moreover have "step parseRaw 1 (Running ?c5) (Running ?c6)"
    by (rule Update_locks) simp_all
  moreover have "step parseRaw 1 (Running ?c6) (Running ?c7)"
    by (rule Update_reads) simp
  ultimately have "steps parseRaw 1 (Running ?c0) (Running ?c7)"
    unfolding steps_def by (meson rtranclp.rtrancl_into_rtrancl r_into_rtranclp)
  moreover have "?c7 =
        \<lparr>unsent = [], channel = [?event],
         ctx_Done = True, resourceErrorLock = False,
         Update_at = Update_returned, HandleEvents_at = HandleEvents_returned,
         s_copy = ?s,
         diff_local = \<lparr>Hash = ''abc123'', Entities = []\<rparr>, Diffs_sent = [], logged = [],
         Update_read = Some []\<rparr>"
    by (simp add: initial_def NewUpdateStrategyDBMode_def)
  ultimately show ?thesis by simp
qed


subsection \<open>The flush of the diagnostics record\<close>





end
